theory Spec2Isabelle
  imports Main "HOL-Library.AList"
begin

section \<open>Numbers\<close>

text \<open>
  Every JavaScript number is an IEEE double. The numbers of this program are currency
  amounts, stock counts and cart quantities; they are modelled as integers, on which the
  double operations \<open>+\<close>, \<open>-\<close> and \<open>*\<close> are exact as long as the result has magnitude at
  most \<open>2^53\<close> (lemma \<open>to_double_exact\<close> below). The one operation of the program whose
  result is not an integer is the multiplication by the tax rate \<open>0.11\<close>, which no double
  represents exactly: it is modelled with the rounding of the double product written out.
  \<open>NaN\<close>, which arithmetic on an absent (\<open>undefined\<close>) property yields, is \<open>None\<close>.
\<close>

type_synonym number = "int option"

definition js_add :: "number \<Rightarrow> number \<Rightarrow> number" where
  "js_add x y = (case x of None \<Rightarrow> None | Some a \<Rightarrow> (case y of None \<Rightarrow> None | Some b \<Rightarrow> Some (a + b)))"

definition js_mul :: "number \<Rightarrow> number \<Rightarrow> number" where
  "js_mul x y = (case x of None \<Rightarrow> None | Some a \<Rightarrow> (case y of None \<Rightarrow> None | Some b \<Rightarrow> Some (a * b)))"

text \<open>The number of binary digits of a positive integer.\<close>

function bit_length :: "int \<Rightarrow> nat" where
  "bit_length n = (if n \<le> 0 then 0 else Suc (bit_length (n div 2)))"
  by pat_completeness auto
termination
  by (relation "measure nat") auto

declare bit_length.simps [simp del]

text \<open>
  \<open>to_double n\<close> is the integer \<open>n\<close> rounded to 53 significant binary digits, to nearest
  and ties to even: the default rounding of double arithmetic. Scaling by a power of two
  does not change how a value is rounded (exponent range apart), so the same function
  rounds \<open>n / 2^e\<close>.
\<close>

definition to_double :: "int \<Rightarrow> int" where
  "to_double n =
     (let a = \<bar>n\<bar>; k = bit_length a in
      if k \<le> 53 then n
      else
        let sh = k - 53;
            q = a div 2 ^ sh;
            r = a mod 2 ^ sh;
            h = 2 ^ (sh - 1);
            q' = (if h < r \<or> (r = h \<and> odd q) then q + 1 else q)
        in sgn n * (q' * 2 ^ sh))"

text \<open>A double with a fraction part: the value \<open>mant / 2^nexp\<close>.\<close>

record dbl =
  mant :: int
  nexp :: nat

text \<open>The literal \<open>0.11\<close>: the double nearest to 11/100 is \<open>7926335344172073 / 2^56\<close>.\<close>

definition dbl_0_11 :: dbl where
  "dbl_0_11 = \<lparr>mant = 7926335344172073, nexp = 56\<rparr>"

text \<open>\<open>x * r\<close> for an integer-valued \<open>x\<close> and a double \<open>r\<close>: the exact product, rounded.\<close>

definition js_times_dbl :: "number \<Rightarrow> dbl \<Rightarrow> dbl option" where
  "js_times_dbl x r = map_option (\<lambda>n. \<lparr>mant = to_double (n * mant r), nexp = nexp r\<rparr>) x"

text \<open>
  \<open>Math.round(v)\<close>: the integer nearest to \<open>v\<close>, a tie going towards \<open>+\<infinity>\<close>, that is
  \<open>\<lfloor>v + 1/2\<rfloor>\<close>; \<open>NaN\<close> stays \<open>NaN\<close>.
\<close>

definition Math_round :: "dbl option \<Rightarrow> number" where
  "Math_round v = map_option (\<lambda>d. (2 * mant d + 2 ^ nexp d) div (2 * 2 ^ nexp d)) v"

section \<open>Data\<close>

text \<open>
  A product is a JavaScript object: each property the code reads is a field that is
  absent (\<open>None\<close>, the value \<open>undefined\<close>) or present. \<open>extra\<close> holds the properties that
  \<open>parseCSV\<close> stores under other names. A cart line is a copy of a product with a
  \<open>quantity\<close>.
\<close>

record product =
  pid :: "string option"
  name :: "string option"
  price :: number
  category :: "string option"
  weight :: "string option"
  image_url :: "string option"
  stock :: number
  costPrice :: number
  vendor :: "string option"
  extra :: "(string \<times> string) list"

record cart_line = product +
  quantity :: int

record config =
  INVENTORY_SHEET_ID :: string
  FINANCE_SHEET_ID :: string
  APPS_SCRIPT_URL :: string
  SECRET_KEY :: string

text \<open>The fields of \<open>InventoryService\<close>; \<open>config\<close> is \<open>null\<close> until \<open>loadConfig\<close> has run.\<close>

record service =
  config :: "config option"
  inventory :: "product list"
  cart :: "cart_line list"
  taxRate :: dbl

definition constructor :: service where
  "constructor = \<lparr>config = None, inventory = [], cart = [], taxRate = dbl_0_11\<rparr>"

section \<open>Order summary\<close>

text \<open>
  \<open>updateOrderSummary\<close> writes four values to the page; the model returns them.
  \<open>reduce\<close> is \<open>Array.prototype.reduce\<close> with a start value.
\<close>

definition reduce :: "('b \<Rightarrow> 'a \<Rightarrow> 'b) \<Rightarrow> 'b \<Rightarrow> 'a list \<Rightarrow> 'b" where
  "reduce f z xs = foldl f z xs"

record summary =
  subTotal :: number
  taxAmount :: number
  totalAmount :: number
  itemCount :: int

definition updateOrderSummary :: "service \<Rightarrow> summary" where
  "updateOrderSummary st =
     (let subTotal = reduce (\<lambda>sum item. js_add sum (js_mul (price item) (Some (quantity item)))) (Some 0) (cart st);
          taxAmount = Math_round (js_times_dbl subTotal dbl_0_11);
          total = js_add subTotal taxAmount;
          itemCount = reduce (\<lambda>sum item. sum + quantity item) 0 (cart st)
      in \<lparr>subTotal = subTotal, taxAmount = taxAmount, totalAmount = total, itemCount = itemCount\<rparr>)"

section \<open>Cart operations\<close>

text \<open>
  \<open>Array.prototype.find\<close> is \<open>List.find\<close>. The cart lines are objects that the code
  changes in place through the reference \<open>find\<close> returned: \<open>modify_found P f xs\<close> is
  the array after \<open>f\<close> has changed the first element that satisfies \<open>P\<close>. The calls of
  \<open>updateCartDisplay\<close> only write to the page and are left out.
\<close>

fun modify_found :: "('a \<Rightarrow> bool) \<Rightarrow> ('a \<Rightarrow> 'a) \<Rightarrow> 'a list \<Rightarrow> 'a list" where
  "modify_found P f [] = []"
| "modify_found P f (x # xs) = (if P x then f x # xs else x # modify_found P f xs)"

text \<open>The object \<open>{...product, quantity: 1}\<close>.\<close>

definition new_line :: "product \<Rightarrow> cart_line" where
  "new_line p = product.extend p (cart_line.fields 1)"

text \<open>\<open>addToCart\<close> returns \<open>false\<close> when the catalog has no product of that id.\<close>

definition addToCart :: "service \<Rightarrow> string \<Rightarrow> bool \<times> service" where
  "addToCart st sku =
     (case find (\<lambda>p. pid p = Some sku) (inventory st) of
        None \<Rightarrow> (False, st)
      | Some product \<Rightarrow>
          (case find (\<lambda>item. pid item = Some sku) (cart st) of
             Some existingItem \<Rightarrow>
               (True, st\<lparr>cart := modify_found (\<lambda>item. pid item = Some sku)
                                   (\<lambda>item. item\<lparr>quantity := quantity item + 1\<rparr>) (cart st)\<rparr>)
           | None \<Rightarrow> (True, st\<lparr>cart := cart st @ [new_line product]\<rparr>)))"

definition updateQuantity :: "service \<Rightarrow> string \<Rightarrow> string \<Rightarrow> service" where
  "updateQuantity st sku action =
     (case find (\<lambda>item. pid item = Some sku) (cart st) of
        None \<Rightarrow> st
      | Some cartItem \<Rightarrow>
          if action = ''increase'' then
            st\<lparr>cart := modify_found (\<lambda>item. pid item = Some sku)
                       (\<lambda>item. item\<lparr>quantity := quantity item + 1\<rparr>) (cart st)\<rparr>
          else if action = ''decrease'' then
            (let decreased = modify_found (\<lambda>item. pid item = Some sku)
                               (\<lambda>item. item\<lparr>quantity := quantity item - 1\<rparr>) (cart st)
             in if quantity cartItem - 1 \<le> 0
                then st\<lparr>cart := filter (\<lambda>item. pid item \<noteq> Some sku) decreased\<rparr>
                else st\<lparr>cart := decreased\<rparr>)
          else st)"

definition getCart :: "service \<Rightarrow> cart_line list" where
  "getCart st = cart st"

definition clearCart :: "service \<Rightarrow> service" where
  "clearCart st = st\<lparr>cart := []\<rparr>"

text \<open>The user's intents on the cart, and a sequence of them applied in order.\<close>

datatype intent = AddToCart string | UpdateQuantity string string

fun apply_intent :: "service \<Rightarrow> intent \<Rightarrow> service" where
  "apply_intent st (AddToCart sku) = snd (addToCart st sku)"
| "apply_intent st (UpdateQuantity sku action) = updateQuantity st sku action"

definition run :: "service \<Rightarrow> intent list \<Rightarrow> service" where
  "run st intents = foldl apply_intent st intents"

section \<open>Errors and the network\<close>

text \<open>
  A thrown value is an \<open>Error\<close> or a \<open>TypeError\<close> with its message. A function that can
  throw, or an \<open>async\<close> function whose promise can reject, returns \<open>error + 'a\<close>.
\<close>

datatype error = Error string | TypeError string

text \<open>
  The outcome of \<open>fetch\<close> followed by the read of the body: the promise rejects, or a
  response arrives. The network is a parameter of every function that calls \<open>fetch\<close>, and
  each such function returns, beside its result, the requests it has sent, in order.
\<close>

datatype 'r fetched = Rejected error | Response 'r

definition digit_char :: "nat \<Rightarrow> char" where
  "digit_char n = ''0123456789'' ! n"

fun string_of_nat :: "nat \<Rightarrow> string" where
  "string_of_nat n = (if n < 10 then [digit_char n] else string_of_nat (n div 10) @ [digit_char (n mod 10)])"

declare string_of_nat.simps [simp del]

section \<open>Checkout\<close>

record transaction_item =
  sku_i :: "string option"
  name_i :: "string option"
  price_i :: number
  quantity_i :: int
  total_i :: number

record transaction =
  timestamp :: string
  items :: "transaction_item list"
  subtotal :: number
  tax :: number
  total :: number
  status :: string

text \<open>The \<open>POST\<close> request of \<open>checkout\<close>: the address, the credential and the JSON body.\<close>

record post_request =
  post_url :: string
  post_bearer :: string
  body_action :: string
  body_data :: transaction
  body_sheetId :: string

text \<open>
  The parsed body of the answer, \<open>result\<close>: \<open>success\<close> is whether \<open>result.success\<close> is
  truthy, \<open>error_field\<close> is \<open>result.error\<close>. In a response, \<open>json\<close> is what
  \<open>response.json()\<close> gives: the parsed body, or the error it rejects with.
\<close>

record checkout_result =
  success :: bool
  error_field :: "string option"

record 'b response =
  ok :: bool
  http_status :: nat
  json :: "error + 'b"

text \<open>The object literal \<open>transaction\<close> of \<open>checkout\<close>; \<open>now\<close> is \<open>new Date().toISOString()\<close>.\<close>

definition build_transaction :: "service \<Rightarrow> cart_line list \<Rightarrow> string \<Rightarrow> transaction" where
  "build_transaction st cart' now =
     \<lparr>timestamp = now,
      items = map (\<lambda>item. \<lparr>sku_i = pid item, name_i = name item, price_i = price item,
                              quantity_i = quantity item,
                              total_i = js_mul (price item) (Some (quantity item))\<rparr>) cart',
      subtotal = reduce (\<lambda>sum item. js_add sum (js_mul (price item) (Some (quantity item)))) (Some 0) cart',
      tax = Math_round (js_times_dbl
              (reduce (\<lambda>sum item. js_add sum (js_mul (price item) (Some (quantity item)))) (Some 0) cart')
              (taxRate st)),
      total = js_add
              (reduce (\<lambda>sum item. js_add sum (js_mul (price item) (Some (quantity item)))) (Some 0) cart')
              (Math_round (js_times_dbl
                 (reduce (\<lambda>sum item. js_add sum (js_mul (price item) (Some (quantity item)))) (Some 0) cart')
                 (taxRate st))),
      status = ''pending''\<rparr>"

text \<open>
  \<open>checkout(cart)\<close>: the argument is \<open>None\<close> for \<open>null\<close> or \<open>undefined\<close>. The result is
  what the promise resolves to or rejects with, the service afterwards, and the requests
  sent. Reading \<open>this.config.APPS_SCRIPT_URL\<close> while \<open>config\<close> is still \<open>null\<close> throws a
  \<open>TypeError\<close>.
\<close>

definition checkout ::
  "(post_request \<Rightarrow> checkout_result response fetched) \<Rightarrow> string \<Rightarrow> service \<Rightarrow> cart_line list option
     \<Rightarrow> (error + checkout_result) \<times> service \<times> post_request list" where
  "checkout fetch now st cart_arg =
     (case cart_arg of
        None \<Rightarrow> (Inl (Error ''Cart is empty''), st, [])
      | Some cart' \<Rightarrow>
          if length cart' = 0 then (Inl (Error ''Cart is empty''), st, [])
          else
            (case config st of
               None \<Rightarrow> (Inl (TypeError ''Cannot read properties of null''), st, [])
             | Some cfg \<Rightarrow>
                 if APPS_SCRIPT_URL cfg = [] then (Inl (Error ''Apps Script URL not configured''), st, [])
                 else
                   (let transaction = build_transaction st cart' now;
                        request = \<lparr>post_url = APPS_SCRIPT_URL cfg, post_bearer = SECRET_KEY cfg,
                                   body_action = ''saveTransaction'', body_data = transaction,
                                   body_sheetId = FINANCE_SHEET_ID cfg\<rparr>
                    in case fetch request of
                         Rejected e \<Rightarrow> (Inl e, st, [request])
                       | Response response \<Rightarrow>
                           if \<not> ok response
                           then (Inl (Error (''HTTP error! status: '' @ string_of_nat (http_status response))),
                                 st, [request])
                           else
                             (case json response of
                                Inl e \<Rightarrow> (Inl e, st, [request])
                              | Inr result \<Rightarrow>
                                  if success result then (Inr result, st\<lparr>cart := []\<rparr>, [request])
                                  else
                                    (Inl (Error (case error_field result of
                                                   None \<Rightarrow> ''Checkout failed''
                                                 | Some m \<Rightarrow> if m = [] then ''Checkout failed'' else m)),
                                     st, [request])))))"

section \<open>Flat-file catalog\<close>

text \<open>
  A string is a list of its UTF-16 code units, and a character of the model is a code
  unit below 256: the characters of ASCII and of Latin-1. Text with other characters is
  outside the model. \<open>split c s\<close> is \<open>s.split(c)\<close> for a separator of one character.
  \<open>trim\<close> removes white space and line ends at both ends; of the characters below 256
  those are tab, line feed, vertical tab, form feed, carriage return, space and the
  no-break space \<open>U+00A0\<close>. \<open>toLowerCase\<close> maps the letters that have a lower case, which
  below 256 are \<open>A\<close> to \<open>Z\<close> and \<open>U+00C0\<close> to \<open>U+00DE\<close> without the sign \<open>U+00D7\<close>,
  each to the character 32 places on. \<open>includes_str s t\<close> is \<open>s.includes(t)\<close>.
\<close>

fun split :: "char \<Rightarrow> string \<Rightarrow> string list" where
  "split c [] = [[]]"
| "split c (x # xs) =
     (if x = c then [] # split c xs
      else (case split c xs of [] \<Rightarrow> [[x]] | w # ws \<Rightarrow> (x # w) # ws))"

definition is_space :: "char \<Rightarrow> bool" where
  "is_space c = (c \<in> set [CHR '' '', CHR 0x09, CHR 0x0A, CHR 0x0B, CHR 0x0C, CHR 0x0D, CHR 0xA0])"

definition trim :: "string \<Rightarrow> string" where
  "trim s = rev (dropWhile is_space (rev (dropWhile is_space s)))"

definition upper_letters :: string where
  "upper_letters =
     ''ABCDEFGHIJKLMNOPQRSTUVWXYZ'' @
         [CHR 0xC0, CHR 0xC1, CHR 0xC2, CHR 0xC3, CHR 0xC4, CHR 0xC5, CHR 0xC6, CHR 0xC7,
          CHR 0xC8, CHR 0xC9, CHR 0xCA, CHR 0xCB, CHR 0xCC, CHR 0xCD, CHR 0xCE, CHR 0xCF,
          CHR 0xD0, CHR 0xD1, CHR 0xD2, CHR 0xD3, CHR 0xD4, CHR 0xD5, CHR 0xD6, CHR 0xD8,
          CHR 0xD9, CHR 0xDA, CHR 0xDB, CHR 0xDC, CHR 0xDD, CHR 0xDE]"

definition lower_letters :: string where
  "lower_letters =
     ''abcdefghijklmnopqrstuvwxyz'' @
         [CHR 0xE0, CHR 0xE1, CHR 0xE2, CHR 0xE3, CHR 0xE4, CHR 0xE5, CHR 0xE6, CHR 0xE7,
          CHR 0xE8, CHR 0xE9, CHR 0xEA, CHR 0xEB, CHR 0xEC, CHR 0xED, CHR 0xEE, CHR 0xEF,
          CHR 0xF0, CHR 0xF1, CHR 0xF2, CHR 0xF3, CHR 0xF4, CHR 0xF5, CHR 0xF6, CHR 0xF8,
          CHR 0xF9, CHR 0xFA, CHR 0xFB, CHR 0xFC, CHR 0xFD, CHR 0xFE]"

definition lower_char :: "char \<Rightarrow> char" where
  "lower_char c = (case map_of (zip upper_letters lower_letters) c of None \<Rightarrow> c | Some l \<Rightarrow> l)"

definition toLowerCase :: "string \<Rightarrow> string" where
  "toLowerCase s = map lower_char s"

fun includes_str :: "string \<Rightarrow> string \<Rightarrow> bool" where
  "includes_str [] t = (t = [])"
| "includes_str (x # xs) t = (take (length t) (x # xs) = t \<or> includes_str xs t)"

text \<open>
  \<open>parseFloat\<close> and \<open>parseInt\<close> are functions of the language; the model takes them as
  given, \<open>None\<close> being \<open>NaN\<close>.
\<close>

record builtins =
  parseFloat :: "string \<Rightarrow> number"
  parseInt :: "string \<Rightarrow> number"

text \<open>\<open>x || 0\<close> for a number \<open>x\<close>: \<open>NaN\<close> and \<open>0\<close> are falsy.\<close>

definition or_zero :: "number \<Rightarrow> number" where
  "or_zero x = (case x of None \<Rightarrow> Some 0 | Some n \<Rightarrow> if n = 0 then Some 0 else Some n)"

text \<open>A string property is truthy when it is present and not empty.\<close>

definition truthy :: "string option \<Rightarrow> bool" where
  "truthy v = (case v of None \<Rightarrow> False | Some s \<Rightarrow> s \<noteq> [])"

definition empty_object :: product where
  "empty_object = \<lparr>pid = None, name = None, price = None, category = None, weight = None,
     image_url = None, stock = None, costPrice = None, vendor = None, extra = []\<rparr>"

text \<open>
  The \<open>switch\<close> over the lower-cased header. The \<open>default\<close> branch stores the value under
  the lower-cased header itself; the only property read elsewhere that it can reach is
  \<open>vendor\<close>.
\<close>

definition assign :: "builtins \<Rightarrow> string \<Rightarrow> string \<Rightarrow> product \<Rightarrow> product" where
  "assign js header v product =
     (let h = toLowerCase header in
      if h = ''sku'' \<or> h = ''id'' then product\<lparr>pid := Some v\<rparr>
      else if h = ''nama_item'' \<or> h = ''name'' \<or> h = ''product_name'' then product\<lparr>name := Some v\<rparr>
      else if h = ''harga_jual'' \<or> h = ''price'' then product\<lparr>price := or_zero (parseFloat js v)\<rparr>
      else if h = ''kategori'' \<or> h = ''category'' then product\<lparr>category := Some v\<rparr>
      else if h = ''satuan'' \<or> h = ''weight'' \<or> h = ''unit'' then product\<lparr>weight := Some v\<rparr>
      else if h = ''image'' \<or> h = ''image_url'' then product\<lparr>image_url := Some v\<rparr>
      else if h = ''jumlah'' \<or> h = ''stock'' \<or> h = ''quantity'' then product\<lparr>stock := or_zero (parseInt js v)\<rparr>
      else if h = ''harga_beli'' then product\<lparr>costPrice := or_zero (parseFloat js v)\<rparr>
      else if h = ''nama_vendor'' then product\<lparr>vendor := Some v\<rparr>
      else if h = ''vendor'' then product\<lparr>vendor := Some v\<rparr>
      else product\<lparr>extra := AList.update h v (extra product)\<rparr>)"

text \<open>\<open>values[index] || ''\<close>: a missing column reads as the empty string.\<close>

definition value_at :: "string list \<Rightarrow> nat \<Rightarrow> string" where
  "value_at values index = (if index < length values then values ! index else [])"

text \<open>The object that \<open>headers.forEach\<close> builds from one line.\<close>

definition row_product :: "builtins \<Rightarrow> string list \<Rightarrow> string \<Rightarrow> product" where
  "row_product js headers line =
     (let values = map trim (split CHR '','' line) in
      foldl (\<lambda>product (header, index). assign js header (value_at values index) product)
        empty_object (zip headers [0 ..< length headers]))"

text \<open>The default image of a product that has none.\<close>

definition with_image :: "product \<Rightarrow> product" where
  "with_image product =
     (if \<not> truthy (image_url product)
      then product\<lparr>image_url := Some (''Asset/assets/img/products/''
                                         @ (case pid product of None \<Rightarrow> ''undefined'' | Some i \<Rightarrow> i)
                                         @ ''.png'')\<rparr>
      else product)"

text \<open>The \<open>for\<close> loop over the lines after the header; \<open>products\<close> is the array so far.\<close>

fun parse_rows :: "builtins \<Rightarrow> string list \<Rightarrow> string list \<Rightarrow> product list \<Rightarrow> product list" where
  "parse_rows js headers [] products = products"
| "parse_rows js headers (line # rest) products =
     parse_rows js headers rest
       (if trim line \<noteq> [] then
          (let product = row_product js headers line in
           if truthy (pid product) \<and> truthy (name product)
           then products @ [with_image product]
           else products)
        else products)"

definition parseCSV :: "builtins \<Rightarrow> string \<Rightarrow> product list" where
  "parseCSV js csvText =
     (case split CHR 0x0A csvText of
        [] \<Rightarrow> []
      | first # rest \<Rightarrow> parse_rows js (map trim (split CHR '','' first)) rest [])"

section \<open>Catalog\<close>

definition getFallbackInventory :: "product list" where
  "getFallbackInventory =
     [
      \<lparr>pid = Some ''semen-padang'', name = Some ''Semen Padang'', price = Some 165000,
       category = Some ''semen'', weight = Some ''55Kg / 1 Karung'',
       image_url = Some ''Asset/assets/img/products/semen-padang.png'', stock = Some 50,
       costPrice = None, vendor = None, extra = []\<rparr>,
      \<lparr>pid = Some ''semen-tiga-roda'', name = Some ''Semen Tiga Roda'', price = Some 135000,
       category = Some ''semen'', weight = Some ''55Kg / 1 Karung'',
       image_url = Some ''Asset/assets/img/products/semen-tiga-roda.png'', stock = Some 30,
       costPrice = None, vendor = None, extra = []\<rparr>,
      \<lparr>pid = Some ''semen-baturaja'', name = Some ''Semen Baturaja'', price = Some 115000,
       category = Some ''semen'', weight = Some ''55Kg / 1 Karung'',
       image_url = Some ''Asset/assets/img/products/semen-baturaja.png'', stock = Some 25,
       costPrice = None, vendor = None, extra = []\<rparr>,
      \<lparr>pid = Some ''semen-rajawali'', name = Some ''Semen Rajawali'', price = Some 105000,
       category = Some ''semen'', weight = Some ''55Kg / 1 Karung'',
       image_url = Some ''Asset/assets/img/products/semen-rajawali.png'', stock = Some 40,
       costPrice = None, vendor = None, extra = []\<rparr>,
      \<lparr>pid = Some ''semen-gresik'', name = Some ''Semen Gresik'', price = Some 125000,
       category = Some ''semen'', weight = Some ''55Kg / 1 Karung'',
       image_url = Some ''Asset/assets/img/products/semen-gresik.png'', stock = Some 35,
       costPrice = None, vendor = None, extra = []\<rparr>,
      \<lparr>pid = Some ''semen-holcim'', name = Some ''Semen Holcim'', price = Some 145000,
       category = Some ''semen'', weight = Some ''55Kg / 1 Karung'',
       image_url = Some ''Asset/assets/img/products/semen-holcim.png'', stock = Some 20,
       costPrice = None, vendor = None, extra = []\<rparr>,
      \<lparr>pid = Some ''semen-indocement'', name = Some ''Semen Indocement'', price = Some 155000,
       category = Some ''semen'', weight = Some ''55Kg / 1 Karung'',
       image_url = Some ''Asset/assets/img/products/semen-indocement.png'', stock = Some 15,
       costPrice = None, vendor = None, extra = []\<rparr>,
      \<lparr>pid = Some ''batu-bata-merah'', name = Some ''Batu Bata Merah'', price = Some 2500,
       category = Some ''batu-bata'', weight = Some ''1 Pcs'',
       image_url = Some ''Asset/assets/img/products/batu-bata-merah.png'', stock = Some 1000,
       costPrice = None, vendor = None, extra = []\<rparr>,
      \<lparr>pid = Some ''genteng-beton'', name = Some ''Genteng Beton'', price = Some 15000,
       category = Some ''genteng'', weight = Some ''1 Pcs'',
       image_url = Some ''Asset/assets/img/products/genteng-beton.png'', stock = Some 200,
       costPrice = None, vendor = None, extra = []\<rparr>,
      \<lparr>pid = Some ''pintu-kayu'', name = Some ''Pintu Kayu'', price = Some 450000,
       category = Some ''pintu'', weight = Some ''1 Unit'',
       image_url = Some ''Asset/assets/img/products/pintu-kayu.png'', stock = Some 10,
       costPrice = None, vendor = None, extra = []\<rparr>
     ]"

text \<open>
  The network for the catalog: the structured source answers a \<open>GET\<close> with a status and a
  JSON body whose \<open>products\<close> may be absent. The answer for a flat file has a status too
  and a body, which \<open>response.text()\<close> reads; \<open>Rejected\<close> is a \<open>fetch\<close> or a read that
  rejects.
\<close>

record api_data =
  data_products :: "product list option"

record csv_response =
  csv_ok :: bool
  csv_status :: nat
  csv_body :: string

record network =
  api_get :: "string \<Rightarrow> string \<Rightarrow> api_data response fetched"
  csv_get :: "string \<Rightarrow> csv_response fetched"

definition googleSheetsUrl :: string where
  "googleSheetsUrl = ''https://docs.google.com/spreadsheets/d/e/2PACX-1vQeQzTtU6TzJRvBH3hy2kyedHOa4-sl6LkuEgLSr3qx3awtYZm1_rbzuB5BXJg3h9Oa-ZwWODhkKxfI/pub?gid=0&single=true&output=csv''"

definition localCsvUrl :: string where
  "localCsvUrl = ''assets/data/inventory.csv''"

text \<open>\<open>loadConfig\<close>: the configuration read from \<open>config.json\<close>, or the empty default.\<close>

definition loadConfig :: "config fetched \<Rightarrow> service \<Rightarrow> service" where
  "loadConfig fetched_config st =
     (case fetched_config of
        Response c \<Rightarrow> st\<lparr>config := Some c\<rparr>
      | Rejected e \<Rightarrow> st\<lparr>config := Some \<lparr>INVENTORY_SHEET_ID = [], FINANCE_SHEET_ID = [],
                                            APPS_SCRIPT_URL = [], SECRET_KEY = []\<rparr>\<rparr>)"

definition fetchFromGoogleSheets :: "network \<Rightarrow> service \<Rightarrow> (error + product list) \<times> string list" where
  "fetchFromGoogleSheets net st =
     (case config st of
        None \<Rightarrow> (Inl (TypeError ''Cannot read properties of null''), [])
      | Some cfg \<Rightarrow>
          (let url = APPS_SCRIPT_URL cfg @ ''?action=getInventory&sheetId='' @ INVENTORY_SHEET_ID cfg in
           case api_get net url (SECRET_KEY cfg) of
             Rejected e \<Rightarrow> (Inl e, [url])
           | Response response \<Rightarrow>
               if \<not> ok response
               then (Inl (Error (''HTTP error! status: '' @ string_of_nat (http_status response))), [url])
               else
                 (case json response of
                    Inl e \<Rightarrow> (Inl e, [url])
                  | Inr data \<Rightarrow> (Inr (case data_products data of None \<Rightarrow> [] | Some ps \<Rightarrow> ps), [url]))))"

text \<open>\<open>fetchFromCSV\<close> reads the body of whatever response arrives; it does not look at the status.\<close>

definition fetchFromCSV :: "builtins \<Rightarrow> network \<Rightarrow> (error + product list) \<times> string list" where
  "fetchFromCSV js net =
     (case csv_get net googleSheetsUrl of
        Response response \<Rightarrow> (Inr (parseCSV js (csv_body response)), [googleSheetsUrl])
      | Rejected error \<Rightarrow>
          (case csv_get net localCsvUrl of
             Response response \<Rightarrow>
               (Inr (parseCSV js (csv_body response)), [googleSheetsUrl, localCsvUrl])
           | Rejected localError \<Rightarrow> (Inr getFallbackInventory, [googleSheetsUrl, localCsvUrl])))"

text \<open>
  \<open>getInventory\<close>: everything inside its \<open>try\<close> is \<open>attempt\<close>, also the read of the
  configuration, which throws while \<open>config\<close> is \<open>null\<close>; the \<open>catch\<close> returns the built-in
  list.
\<close>

definition getInventory :: "builtins \<Rightarrow> network \<Rightarrow> service \<Rightarrow> (error + product list) \<times> string list" where
  "getInventory js net st =
     (let attempt =
            (case config st of
               None \<Rightarrow> (Inl (TypeError ''Cannot read properties of null''), [])
             | Some cfg \<Rightarrow>
                 if INVENTORY_SHEET_ID cfg \<noteq> [] \<and> APPS_SCRIPT_URL cfg \<noteq> []
                 then fetchFromGoogleSheets net st
                 else fetchFromCSV js net)
      in case fst attempt of
           Inr found \<Rightarrow> (Inr found, snd attempt)
         | Inl error \<Rightarrow> (Inr getFallbackInventory, snd attempt))"

section \<open>Display, search and filter\<close>

text \<open>
  \<open>renderProducts\<close> returns at once when the page has no element \<open>productsGrid\<close>
  (\<open>grid\<close> is whether it has one); otherwise it stores the list it is given in
  \<open>inventory\<close> and draws it.
\<close>

definition renderProducts :: "bool \<Rightarrow> service \<Rightarrow> product list \<Rightarrow> service" where
  "renderProducts grid st productList = (if \<not> grid then st else st\<lparr>inventory := productList\<rparr>)"

definition filterByCategory :: "bool \<Rightarrow> service \<Rightarrow> string \<Rightarrow> service" where
  "filterByCategory grid st cat =
     (let filteredProducts = filter (\<lambda>product. category product = Some cat) (inventory st)
      in renderProducts grid st filteredProducts)"

text \<open>
  The test of \<open>searchProducts\<close> calls \<open>toLowerCase\<close> on \<open>product.name\<close> and, when the name
  does not match, on \<open>product.category\<close>: on an absent property that throws, and so does
  the whole \<open>filter\<close>.
\<close>

definition matches :: "string \<Rightarrow> product \<Rightarrow> error + bool" where
  "matches query product =
     (case name product of
        None \<Rightarrow> Inl (TypeError ''Cannot read properties of undefined'')
      | Some n \<Rightarrow>
          if includes_str (toLowerCase n) (toLowerCase query) then Inr True
          else (case category product of
                  None \<Rightarrow> Inl (TypeError ''Cannot read properties of undefined'')
                | Some c \<Rightarrow> Inr (includes_str (toLowerCase c) (toLowerCase query))))"

fun filter_try :: "('a \<Rightarrow> error + bool) \<Rightarrow> 'a list \<Rightarrow> error + 'a list" where
  "filter_try P [] = Inr []"
| "filter_try P (x # xs) =
     (case P x of
        Inl e \<Rightarrow> Inl e
      | Inr b \<Rightarrow> (case filter_try P xs of
                    Inl e \<Rightarrow> Inl e
                  | Inr ys \<Rightarrow> Inr (if b then x # ys else ys)))"

definition searchProducts :: "bool \<Rightarrow> service \<Rightarrow> string \<Rightarrow> error + service" where
  "searchProducts grid st query =
     (case filter_try (matches query) (inventory st) of
        Inl e \<Rightarrow> Inl e
      | Inr filteredProducts \<Rightarrow> Inr (renderProducts grid st filteredProducts))"

text \<open>\<open>MiniERP.loadInventory\<close>: the catalog is fetched and handed to \<open>renderProducts\<close>.\<close>

definition loadInventory :: "builtins \<Rightarrow> network \<Rightarrow> bool \<Rightarrow> service \<Rightarrow> service" where
  "loadInventory js net grid st =
     (case fst (getInventory js net st) of
        Inr loaded \<Rightarrow> renderProducts grid st loaded
      | Inl error \<Rightarrow> st)"

section \<open>Vocabulary of the properties\<close>

text \<open>
  \<open>round_half_up n d\<close> is the fraction \<open>n / d\<close> rounded to the nearest integer, a tie
  going up: \<open>\<lfloor>n / d + 1/2\<rfloor>\<close>. The tax of the specification, 11 percent of a subtotal
  \<open>s\<close> rounded half up, is \<open>round_half_up (11 * s) 100\<close>.
\<close>

definition round_half_up :: "int \<Rightarrow> int \<Rightarrow> int" where
  "round_half_up n d = (2 * n + d) div (2 * d)"

text \<open>The exact sums over the lines of a cart whose prices are present.\<close>

definition sum_of_lines :: "cart_line list \<Rightarrow> int" where
  "sum_of_lines c = (\<Sum>l\<leftarrow>c. (case price l of None \<Rightarrow> 0 | Some p \<Rightarrow> p) * quantity l)"

definition sum_of_quantities :: "cart_line list \<Rightarrow> int" where
  "sum_of_quantities c = (\<Sum>l\<leftarrow>c. quantity l)"

text \<open>The cart line \<open>{price: p, quantity: q}\<close>.\<close>

definition priced_line :: "int \<Rightarrow> int \<Rightarrow> cart_line" where
  "priced_line p q = product.extend (empty_object\<lparr>price := Some p\<rparr>) (cart_line.fields q)"

text \<open>
  The service when nothing can be fetched: the default configuration and the built-in
  catalog on the page, the cart empty.
\<close>

definition offline_shop :: service where
  "offline_shop =
     renderProducts True (loadConfig (Rejected (TypeError ''Failed to fetch'')) constructor)
       getFallbackInventory"

text \<open>
  The service of a shop that is online: a configuration with an endpoint, the built-in
  catalog on the page, one \<open>Semen Padang\<close> in the cart. \<open>accepting\<close> and \<open>refusing\<close> are
  endpoints that answer every request with success, or with a failure and its reason.
\<close>

definition example_config :: config where
  "example_config = \<lparr>INVENTORY_SHEET_ID = ''inventory-sheet'', FINANCE_SHEET_ID = ''finance-sheet'',
     APPS_SCRIPT_URL = ''https://script.example/exec'', SECRET_KEY = ''secret''\<rparr>"

definition online_shop :: service where
  "online_shop =
     snd (addToCart
       (renderProducts True (loadConfig (Response example_config) constructor) getFallbackInventory)
       ''semen-padang'')"

definition accepting :: "post_request \<Rightarrow> checkout_result response fetched" where
  "accepting request =
     Response \<lparr>ok = True, http_status = 200, json = Inr \<lparr>success = True, error_field = None\<rparr>\<rparr>"

definition refusing :: "post_request \<Rightarrow> checkout_result response fetched" where
  "refusing request =
     Response \<lparr>ok = True, http_status = 200,
               json = Inr \<lparr>success = False, error_field = Some ''Sheet is locked''\<rparr>\<rparr>"

text \<open>A network that cannot be reached, and an endpoint that answers with status 500.\<close>

definition unreachable :: "post_request \<Rightarrow> checkout_result response fetched" where
  "unreachable request = Rejected (TypeError ''Failed to fetch'')"

definition failing :: "post_request \<Rightarrow> checkout_result response fetched" where
  "failing request = Response \<lparr>ok = False, http_status = 500, json = Inl (Error ''Unexpected token'')\<rparr>"

text \<open>
  When the structured source counts as failed: the request is rejected, the status is
  not ok, or the body is not JSON.
\<close>

fun api_failed :: "api_data response fetched \<Rightarrow> bool" where
  "api_failed (Rejected e) = True"
| "api_failed (Response r) = (\<not> ok r \<or> isl (json r))"

text \<open>
  A flat file of five lines after the header: a product, a row with an identifier and
  no name, a blank line, a short row without a price, and the empty line after the last
  line break.
\<close>

definition newline :: string where
  "newline = [CHR 0x0A]"

definition example_csv :: string where
  "example_csv =
     ''sku, Nama_Item ,harga_jual'' @ newline @
     ''A1, Semen Padang ,165000'' @ newline @
     ''B2,,200'' @ newline @
     ''  '' @ newline @
     ''C3,Bata'' @ newline"

text \<open>
  A second flat file, with the English headers and a column the code does not know:
  a product, a row whose name is a no-break space, and a row without an identifier.
\<close>

definition example_csv_en :: string where
  "example_csv_en =
     ''ID,Name,Price,Category,Unit,Stock,Warna'' @ newline @
     ''P1,Pasir,90000,pasir,1 Sak,12,abu'' @ newline @
     ''P2,'' @ [CHR 0xA0] @ '',5000,cat,1 Kg,3,biru'' @ newline @
     '',Tanpa Id,7000'' @ newline"

text \<open>
  The reading of a row that the specification gives: the cells of a line are its parts
  between commas, trimmed; a field of the product is the cell in the last column whose
  header, in lower case, is one of the names of the field, and the field is absent when
  there is no such column. \<open>known_headers\<close> are the names of all fields.
\<close>

definition cells :: "string \<Rightarrow> string list" where
  "cells line = map trim (split CHR '','' line)"

definition last_column :: "string list \<Rightarrow> string list \<Rightarrow> nat option" where
  "last_column names headers =
     find (\<lambda>i. toLowerCase (headers ! i) \<in> set names) (rev [0 ..< length headers])"

definition cell_of :: "string list \<Rightarrow> string list \<Rightarrow> string list \<Rightarrow> string option" where
  "cell_of names headers values = map_option (value_at values) (last_column names headers)"

definition known_headers :: "string list" where
  "known_headers =
     [''sku'', ''id'', ''nama_item'', ''name'', ''product_name'', ''harga_jual'', ''price'',
      ''kategori'', ''category'', ''satuan'', ''weight'', ''unit'', ''image'', ''image_url'',
      ''jumlah'', ''stock'', ''quantity'', ''harga_beli'', ''nama_vendor'', ''vendor'']"

text \<open>
  Four networks. In \<open>api_up\<close> the structured source answers with one product; in
  \<open>api_down\<close> it is unreachable and the remote flat file is there; in \<open>remote_down\<close> only
  the local flat file is there; in \<open>all_down\<close> nothing is reachable.
\<close>

definition api_up :: network where
  "api_up =
     \<lparr>api_get = (\<lambda>url bearer. Response \<lparr>ok = True, http_status = 200,
                    json = Inr \<lparr>data_products = Some [getFallbackInventory ! 9]\<rparr>\<rparr>),
      csv_get = (\<lambda>url. Rejected (TypeError ''Failed to fetch''))\<rparr>"

definition remote_down :: network where
  "remote_down =
     \<lparr>api_get = (\<lambda>url bearer. Rejected (TypeError ''Failed to fetch'')),
      csv_get = (\<lambda>url. if url = localCsvUrl
                        then Response \<lparr>csv_ok = True, csv_status = 200, csv_body = example_csv_en\<rparr>
                        else Rejected (TypeError ''Failed to fetch''))\<rparr>"

definition api_down :: network where
  "api_down =
     \<lparr>api_get = (\<lambda>url bearer. Rejected (TypeError ''Failed to fetch'')),
      csv_get = (\<lambda>url. Response \<lparr>csv_ok = True, csv_status = 200, csv_body = example_csv\<rparr>)\<rparr>"

definition all_down :: network where
  "all_down =
     \<lparr>api_get = (\<lambda>url bearer. Rejected (TypeError ''Failed to fetch'')),
      csv_get = (\<lambda>url. Rejected (TypeError ''Failed to fetch''))\<rparr>"

text \<open>
  A stand-in for \<open>parseFloat\<close> and \<open>parseInt\<close> that agrees with them on strings of
  decimal digits and on the empty string, where both give \<open>NaN\<close>.
\<close>

fun digits_value :: "int \<Rightarrow> string \<Rightarrow> number" where
  "digits_value acc [] = Some acc"
| "digits_value acc (c # cs) =
     (case map_of (zip ''0123456789'' [0, 1, 2, 3, 4, 5, 6, 7, 8, 9]) c of
        None \<Rightarrow> None
      | Some d \<Rightarrow> digits_value (10 * acc + d) cs)"

definition digits_only :: builtins where
  "digits_only =
     \<lparr>parseFloat = (\<lambda>s. if s = [] then None else digits_value 0 s),
      parseInt = (\<lambda>s. if s = [] then None else digits_value 0 s)\<rparr>"

text \<open>The invariant of the cart: quantities of at least one, and one line per identifier.\<close>

definition cart_ok :: "cart_line list \<Rightarrow> bool" where
  "cart_ok c = ((\<forall>l\<in>set c. 1 \<le> quantity l) \<and> distinct (map pid c))"

section \<open>Rounding to a double\<close>

lemma bit_length_le: "n < 2 ^ k \<Longrightarrow> bit_length n \<le> k"
proof (induction n arbitrary: k rule: bit_length.induct)
  case (1 n)
  show ?case
  proof (cases "n \<le> 0")
    case True
    then show ?thesis by (simp add: bit_length.simps)
  next
    case False
    then obtain j where k: "k = Suc j" using 1(2) by (cases k) auto
    with 1(2) have "n div 2 < 2 ^ j" by auto
    with 1(1) False have "bit_length (n div 2) \<le> j" by simp
    with False k show ?thesis by (subst bit_length.simps) simp
  qed
qed

lemma bit_length_pos: "0 < bit_length n \<Longrightarrow> 0 < n"
  by (subst (asm) bit_length.simps) (simp split: if_splits)

text \<open>Integers of magnitude below \<open>2^53\<close> are doubles: rounding leaves them as they are.\<close>

lemma to_double_exact: "\<bar>n\<bar> < 2 ^ 53 \<Longrightarrow> to_double n = n"
proof -
  assume "\<bar>n\<bar> < 2 ^ 53"
  then have "bit_length \<bar>n\<bar> \<le> 53" by (rule bit_length_le)
  then show ?thesis by (simp add: to_double_def Let_def)
qed

text \<open>
  A non-negative integer below \<open>2^(53+j)\<close> is rounded to one of the two neighbouring
  multiples of some \<open>2^sh\<close> with \<open>sh \<le> j\<close>, and upwards only from the upper half.
\<close>

lemma to_double_cases:
  assumes a: "0 \<le> a" and lt: "a < 2 ^ (53 + j)"
  shows "to_double a = a \<or>
    (\<exists>sh. 1 \<le> sh \<and> sh \<le> j \<and>
       (to_double a = (a div 2 ^ sh) * 2 ^ sh \<or>
        (to_double a = (a div 2 ^ sh + 1) * 2 ^ sh \<and> 2 ^ (sh - 1) \<le> a mod 2 ^ sh)))"
proof (cases "bit_length a \<le> 53")
  case True
  with a show ?thesis by (simp add: to_double_def Let_def)
next
  case False
  define sh where "sh = bit_length a - 53"
  from lt have "bit_length a \<le> 53 + j" by (rule bit_length_le)
  with False have sh: "1 \<le> sh" "sh \<le> j" by (simp_all add: sh_def)
  from False have "0 < a" by (intro bit_length_pos) simp
  then have sg: "sgn a = 1" by simp
  have abs: "\<bar>a\<bar> = a" using a by simp
  have td: "to_double a =
      (if 2 ^ (sh - 1) < a mod 2 ^ sh \<or> (a mod 2 ^ sh = 2 ^ (sh - 1) \<and> odd (a div 2 ^ sh))
       then a div 2 ^ sh + 1 else a div 2 ^ sh) * 2 ^ sh"
    using False by (simp add: to_double_def Let_def abs sg sh_def)
  show ?thesis
  proof (cases "2 ^ (sh - 1) < a mod 2 ^ sh \<or> (a mod 2 ^ sh = 2 ^ (sh - 1) \<and> odd (a div 2 ^ sh))")
    case True
    then have "(2::int) ^ (sh - 1) \<le> a mod 2 ^ sh" by auto
    with True td sh show ?thesis by auto
  next
    case F: False
    with td have "to_double a = (a div 2 ^ sh) * 2 ^ sh" by simp
    with sh show ?thesis by blast
  qed
qed

lemma to_double_lower:
  assumes a: "0 \<le> a" and lt: "a < 2 ^ (53 + j)" and dv: "2 ^ j dvd L" and le: "L \<le> a"
  shows "L \<le> to_double a"
proof -
  from to_double_cases [OF a lt] consider "to_double a = a"
    | sh where "1 \<le> sh" "sh \<le> j" "(a div 2 ^ sh) * 2 ^ sh \<le> to_double a"
    by auto
  then show ?thesis
  proof cases
    case 1
    with le show ?thesis by simp
  next
    case (2 sh)
    have "(2::int) ^ sh dvd 2 ^ j" using 2(2) by (simp add: le_imp_power_dvd)
    then have "2 ^ sh dvd L" using dv by (rule dvd_trans)
    then obtain m where m: "L = 2 ^ sh * m" by (auto simp: dvd_def)
    have "m = L div 2 ^ sh" using m by simp
    also have "\<dots> \<le> a div 2 ^ sh" using le by (simp add: zdiv_mono1)
    finally have "m * 2 ^ sh \<le> (a div 2 ^ sh) * 2 ^ sh" by (simp add: mult_right_mono)
    also note 2(3)
    finally show ?thesis using m by (simp add: mult.commute)
  qed
qed

lemma to_double_upper:
  assumes a: "0 \<le> a" and lt: "a < 2 ^ (53 + j)" and j: "1 \<le> j"
  shows "to_double a \<le> a + 2 ^ (j - 1)"
proof -
  have pos: "(0::int) \<le> 2 ^ (j - 1)" by simp
  from to_double_cases [OF a lt] consider "to_double a = a"
    | sh where "1 \<le> sh" "sh \<le> j" "to_double a = (a div 2 ^ sh) * 2 ^ sh"
    | sh where "1 \<le> sh" "sh \<le> j" "to_double a = (a div 2 ^ sh + 1) * 2 ^ sh"
        "2 ^ (sh - 1) \<le> a mod 2 ^ sh"
    by blast
  then show ?thesis
  proof cases
    case 1
    with pos show ?thesis by simp
  next
    case (2 sh)
    have "0 \<le> a mod 2 ^ sh" by simp
    then have "(a div 2 ^ sh) * 2 ^ sh \<le> a"
      using div_mult_mod_eq [of a "2 ^ sh"] by linarith
    with 2(3) pos show ?thesis by linarith
  next
    case (3 sh)
    have e: "(2::int) ^ sh = 2 * 2 ^ (sh - 1)" using 3(1) by (cases sh) simp_all
    have "(a div 2 ^ sh + 1) * 2 ^ sh = a - a mod 2 ^ sh + 2 ^ sh"
      using div_mult_mod_eq [of a "2 ^ sh"] by (simp add: algebra_simps)
    also have "\<dots> \<le> a + 2 ^ (sh - 1)" using 3(4) e by simp
    also have "\<dots> \<le> a + 2 ^ (j - 1)" using 3(2) by (simp add: power_increasing)
    finally show ?thesis using 3(3) by simp
  qed
qed

text \<open>
  Up to a subtotal of 1279431712321163 the double product with \<open>0.11\<close>, rounded by
  \<open>Math.round\<close>, is 11 percent rounded half up: the product is below \<open>2^47\<close>, where
  doubles are at most \<open>2^-6\<close> apart, and the exact 11 percent is a multiple of \<open>1/100\<close>.
  The bound is the largest subtotal whose product stays below \<open>2^47\<close>.
\<close>

lemma tax_round_exact:
  assumes s0: "0 \<le> s" and s1: "s \<le> 1279431712321163"
  shows "Math_round (js_times_dbl (Some s) dbl_0_11) = Some ((11 * s + 50) div 100)"
proof -
  define N where "N = s * 7926335344172073"
  define t where "t = (11 * s + 50) div 100"
  define y where "y = to_double N"
  have t1: "100 * t \<le> 11 * s + 50" and t2: "11 * s + 50 < 100 * t + 100"
    unfolding t_def by simp_all
  have N0: "0 \<le> N" using s0 by (simp add: N_def)
  have Nlt: "N < 2 ^ (53 + 50)" using s0 s1 by (simp add: N_def)
  have "(2::int) ^ 50 dvd (2 * t - 1) * 2 ^ 55"
    by (rule dvd_mult) (simp add: le_imp_power_dvd)
  moreover have "(2 * t - 1) * 2 ^ 55 \<le> N" using t1 s0 by (simp add: N_def)
  ultimately have lo: "(2 * t - 1) * 2 ^ 55 \<le> y"
    unfolding y_def using N0 Nlt by (intro to_double_lower [where j = 50])
  have up: "y \<le> N + 2 ^ 49"
    using to_double_upper [OF N0 Nlt] by (simp add: y_def)
  have r0: "0 \<le> 2 * y + 2 ^ 56 - 2 ^ 57 * t" using lo by simp
  have r1: "2 * y + 2 ^ 56 - 2 ^ 57 * t < 2 ^ 57" using up t2 s1 by (simp add: N_def)
  have "(2 * y + 2 ^ 56) div 2 ^ 57 = t"
    using r0 r1 by (intro int_div_pos_eq [where r = "2 * y + 2 ^ 56 - 2 ^ 57 * t"]) simp_all
  then show ?thesis
    by (simp add: Math_round_def js_times_dbl_def dbl_0_11_def y_def N_def t_def)
qed

lemma round_half_up_percent: "round_half_up (11 * s) 100 = (11 * s + 50) div 100"
proof -
  have "(2 * (11 * s) + 100) div (2 * 100) = (2 * (11 * s + 50)) div (2 * 100)" by simp
  also have "\<dots> = (11 * s + 50) div 100" by simp
  finally show ?thesis by (simp add: round_half_up_def)
qed

text \<open>
  In that range the subtotal and the total are themselves doubles, so the sums that
  produce them are exact in double arithmetic.
\<close>

lemma summary_values_exact:
  assumes s0: "0 \<le> s" and s1: "s \<le> 1279431712321163"
  shows "to_double s = s"
    and "to_double (s + round_half_up (11 * s) 100) = s + round_half_up (11 * s) 100"
proof -
  define t where "t = (11 * s + 50) div 100"
  have t1: "100 * t \<le> 11 * s + 50" and t2: "11 * s + 50 < 100 * t + 100"
    unfolding t_def by simp_all
  have "\<bar>s\<bar> < 2 ^ 53" using s0 s1 by simp
  then show "to_double s = s" by (rule to_double_exact)
  have "\<bar>s + t\<bar> < 2 ^ 53" using s0 s1 t1 t2 by simp
  then have "to_double (s + t) = s + t" by (rule to_double_exact)
  then show "to_double (s + round_half_up (11 * s) 100) = s + round_half_up (11 * s) 100"
    by (simp add: round_half_up_percent t_def)
qed

section \<open>The order summary\<close>

lemma reduce_subtotal:
  "\<forall>l\<in>set c. \<exists>p. price l = Some p \<Longrightarrow>
   reduce (\<lambda>sum item. js_add sum (js_mul (price item) (Some (quantity item)))) (Some a) c
     = Some (a + sum_of_lines c)"
proof (induction c arbitrary: a)
  case Nil
  show ?case by (simp add: reduce_def sum_of_lines_def)
next
  case (Cons l c)
  from Cons.prems obtain p where p: "price l = Some p" by auto
  from Cons.prems have "\<forall>l\<in>set c. \<exists>p. price l = Some p" by simp
  from Cons.IH [OF this, of "a + p * quantity l"] p show ?case
    by (simp add: reduce_def sum_of_lines_def js_add_def js_mul_def)
qed

lemma reduce_quantities:
  "reduce (\<lambda>sum item. sum + quantity item) a c = a + sum_of_quantities c"
  by (induction c arbitrary: a) (simp_all add: reduce_def sum_of_quantities_def)

lemma sum_of_lines_nonneg:
  "\<forall>l\<in>set c. (\<exists>p. price l = Some p \<and> 0 \<le> p) \<and> 0 < quantity l \<Longrightarrow> 0 \<le> sum_of_lines c"
  unfolding sum_of_lines_def
  by (induction c) auto

lemma find_fallback: "find (\<lambda>p. pid p = Some ''semen-padang'') getFallbackInventory = Some (hd getFallbackInventory)"
  by (simp add: getFallbackInventory_def)

text \<open>
  Claim C1, as the code has it. For every cart whose lines have non-negative integer unit
  prices and positive integer quantities, and whose subtotal is at most 1279431712321163
  (a bound above \<open>10^15\<close>), the summary computed by \<open>updateOrderSummary\<close> has
  subtotal = \<open>\<Sum>\<close>(price \<open>\<times>\<close> quantity), tax = 11 percent of the subtotal rounded half
  up, total = subtotal + tax and itemCount = \<open>\<Sum>\<close>(quantity), all exactly.
\<close>

theorem C1_order_summary_exact:
  assumes lines: "\<forall>l\<in>set (cart st). (\<exists>p. price l = Some p \<and> 0 \<le> p) \<and> 0 < quantity l"
    and bound: "sum_of_lines (cart st) \<le> 1279431712321163"
  shows "updateOrderSummary st =
           \<lparr>subTotal = Some (sum_of_lines (cart st)),
            taxAmount = Some (round_half_up (11 * sum_of_lines (cart st)) 100),
            totalAmount = Some (sum_of_lines (cart st) + round_half_up (11 * sum_of_lines (cart st)) 100),
            itemCount = sum_of_quantities (cart st)\<rparr>"
proof -
  from lines have "\<forall>l\<in>set (cart st). \<exists>p. price l = Some p" by blast
  then have sub: "reduce (\<lambda>sum item. js_add sum (js_mul (price item) (Some (quantity item)))) (Some 0) (cart st)
      = Some (sum_of_lines (cart st))"
    using reduce_subtotal [of "cart st" 0] by simp
  have "0 \<le> sum_of_lines (cart st)" using lines by (rule sum_of_lines_nonneg)
  then have tax: "Math_round (js_times_dbl (Some (sum_of_lines (cart st))) dbl_0_11)
      = Some (round_half_up (11 * sum_of_lines (cart st)) 100)"
    using bound by (simp add: tax_round_exact round_half_up_percent)
  show ?thesis
    unfolding updateOrderSummary_def Let_def sub tax
    by (simp add: js_add_def reduce_quantities)
qed

text \<open>
  The scenario of the specification: one \<open>Semen Padang\<close> at 165000 in the cart gives
  subtotal 165000, tax 18150 and total 183150.
\<close>

theorem C1_order_summary_exact_witness:
  "updateOrderSummary (snd (addToCart (constructor\<lparr>inventory := getFallbackInventory\<rparr>) ''semen-padang''))
     = \<lparr>subTotal = Some 165000, taxAmount = Some 18150, totalAmount = Some 183150, itemCount = 1\<rparr>"
proof -
  define st where "st = snd (addToCart (constructor\<lparr>inventory := getFallbackInventory\<rparr>) ''semen-padang'')"
  have c: "cart st = [new_line (hd getFallbackInventory)]"
    by (simp add: st_def addToCart_def find_fallback constructor_def)
  have pr: "price (new_line (hd getFallbackInventory)) = Some 165000"
    and q: "quantity (new_line (hd getFallbackInventory)) = 1"
    by (simp_all add: new_line_def getFallbackInventory_def product.defs cart_line.defs)
  have s: "sum_of_lines (cart st) = 165000" and n: "sum_of_quantities (cart st) = 1"
    by (simp_all add: c sum_of_lines_def sum_of_quantities_def pr q)
  have "updateOrderSummary st =
           \<lparr>subTotal = Some (sum_of_lines (cart st)),
            taxAmount = Some (round_half_up (11 * sum_of_lines (cart st)) 100),
            totalAmount = Some (sum_of_lines (cart st) + round_half_up (11 * sum_of_lines (cart st)) 100),
            itemCount = sum_of_quantities (cart st)\<rparr>"
  proof (rule C1_order_summary_exact)
    show "\<forall>l\<in>set (cart st). (\<exists>p. price l = Some p \<and> 0 \<le> p) \<and> 0 < quantity l"
      by (simp add: c pr q)
    show "sum_of_lines (cart st) \<le> 1279431712321163" by (simp add: s)
  qed
  then have "updateOrderSummary st =
      \<lparr>subTotal = Some 165000, taxAmount = Some 18150, totalAmount = Some 183150, itemCount = 1\<rparr>"
    by (simp add: s n round_half_up_def)
  then show ?thesis unfolding st_def .
qed

text \<open>
  Without the bound the tax is not always 11 percent rounded half up. For a single line
  of price 1279431712321259 the exact 11 percent is 140737488355338.49, which rounds
  to 140737488355338; the double product \<open>1279431712321259 * 0.11\<close> is
  140737488355338.5, the doubles of that size being \<open>1/32\<close> apart, and
  \<open>Math.round\<close> returns 140737488355339.
\<close>

theorem C1_order_summary_counterexample:
  "subTotal (updateOrderSummary (constructor\<lparr>cart := [priced_line 1279431712321259 1]\<rparr>))
     = Some 1279431712321259
   \<and> taxAmount (updateOrderSummary (constructor\<lparr>cart := [priced_line 1279431712321259 1]\<rparr>))
     = Some 140737488355339
   \<and> round_half_up (11 * 1279431712321259) 100 = 140737488355338"
  by (simp add: updateOrderSummary_def constructor_def priced_line_def product.defs cart_line.defs
      empty_object_def reduce_def js_add_def js_mul_def Math_round_def js_times_dbl_def dbl_0_11_def
      to_double_def bit_length.simps Let_def round_half_up_def sum_of_lines_def)


section \<open>The cart\<close>

lemma find_None_iff_lines: "find P xs = None \<longleftrightarrow> (\<forall>x\<in>set xs. \<not> P x)"
  by (induction xs) auto

lemma find_Some_split:
  "find P xs = Some x \<Longrightarrow> \<exists>pre post. xs = pre @ x # post \<and> P x \<and> (\<forall>y\<in>set pre. \<not> P y)"
proof (induction xs)
  case Nil
  then show ?case by simp
next
  case (Cons a xs)
  show ?case
  proof (cases "P a")
    case True
    with Cons.prems have "a = x" by simp
    with True have "a # xs = [] @ x # xs \<and> P x \<and> (\<forall>y\<in>set []. \<not> P y)" by simp
    then show ?thesis by blast
  next
    case False
    with Cons obtain pre post where "xs = pre @ x # post" "P x" "\<forall>y\<in>set pre. \<not> P y" by auto
    with False have "a # xs = (a # pre) @ x # post \<and> P x \<and> (\<forall>y\<in>set (a # pre). \<not> P y)" by simp
    then show ?thesis by blast
  qed
qed

lemma modify_found_split:
  "\<forall>y\<in>set pre. \<not> P y \<Longrightarrow> P x \<Longrightarrow> modify_found P f (pre @ x # post) = pre @ f x # post"
  by (induction pre) auto

lemma pid_new_line: "pid (new_line p) = pid p"
  by (simp add: new_line_def product.defs cart_line.defs)

lemma quantity_new_line: "quantity (new_line p) = 1"
  by (simp add: new_line_def product.defs cart_line.defs)


lemma cart_ok_addToCart:
  assumes "cart_ok (cart st)"
  shows "cart_ok (cart (snd (addToCart st sku)))"
proof (cases "find (\<lambda>p. pid p = Some sku) (inventory st)")
  case None
  with assms show ?thesis by (simp add: addToCart_def)
next
  case (Some product)
  from find_Some_split [OF Some] have pp: "pid product = Some sku" by auto
  show ?thesis
  proof (cases "find (\<lambda>item. pid item = Some sku) (cart st)")
    case None
    then have "\<forall>l\<in>set (cart st). pid l \<noteq> Some sku" by (simp add: find_None_iff_lines)
    then have "Some sku \<notin> pid ` set (cart st)" by auto
    with assms Some None pp show ?thesis
      by (simp add: addToCart_def cart_ok_def pid_new_line quantity_new_line)
  next
    case (Some existingItem)
    from find_Some_split [OF this] obtain pre post where
      c: "cart st = pre @ existingItem # post" and p: "pid existingItem = Some sku"
      and pre: "\<forall>y\<in>set pre. pid y \<noteq> Some sku" by auto
    have m: "modify_found (\<lambda>item. pid item = Some sku) (\<lambda>item. item\<lparr>quantity := quantity item + 1\<rparr>) (cart st)
        = pre @ existingItem\<lparr>quantity := quantity existingItem + 1\<rparr> # post"
      unfolding c using pre p by (intro modify_found_split) auto
    from assms \<open>find (\<lambda>p. pid p = Some sku) (inventory st) = Some product\<close> Some show ?thesis
      by (simp add: addToCart_def m) (auto simp: cart_ok_def c)
  qed
qed

lemma updateQuantity_found:
  assumes c: "cart st = pre @ cartItem # post" and p: "pid cartItem = Some sku"
    and pre: "\<forall>y\<in>set pre. pid y \<noteq> Some sku"
    and post: "\<forall>y\<in>set post. pid y \<noteq> Some sku"
  shows "cart (updateQuantity st sku action) =
    (if action = ''increase'' then pre @ cartItem\<lparr>quantity := quantity cartItem + 1\<rparr> # post
     else if action = ''decrease'' then
       (if quantity cartItem - 1 \<le> 0 then pre @ post
        else pre @ cartItem\<lparr>quantity := quantity cartItem - 1\<rparr> # post)
     else cart st)"
proof -
  have fnd: "find (\<lambda>item. pid item = Some sku) (cart st) = Some cartItem"
    unfolding c using pre p by (induction pre) auto
  have m: "modify_found (\<lambda>item. pid item = Some sku) f (cart st) = pre @ f cartItem # post" for f
    unfolding c using pre p by (intro modify_found_split) auto
  have fpre: "filter (\<lambda>item. pid item \<noteq> Some sku) pre = pre"
    using pre by (simp add: filter_id_conv)
  have fpost: "filter (\<lambda>item. pid item \<noteq> Some sku) post = post"
    using post by (simp add: filter_id_conv)
  show ?thesis
    by (simp add: updateQuantity_def fnd m Let_def fpre fpost p)
qed

lemma cart_ok_split:
  assumes "cart_ok (pre @ x # post)" and "pid x = Some sku"
  shows "(\<forall>y\<in>set pre. pid y \<noteq> Some sku) \<and> (\<forall>y\<in>set post. pid y \<noteq> Some sku)"
proof -
  from assms have "Some sku \<notin> pid ` set pre" "Some sku \<notin> pid ` set post"
    by (simp_all add: cart_ok_def)
  then show ?thesis by force
qed

lemma cart_ok_updateQuantity:
  assumes "cart_ok (cart st)"
  shows "cart_ok (cart (updateQuantity st sku action))"
proof (cases "find (\<lambda>item. pid item = Some sku) (cart st)")
  case None
  with assms show ?thesis by (simp add: updateQuantity_def)
next
  case (Some cartItem)
  from find_Some_split [OF this] obtain pre post where
    c: "cart st = pre @ cartItem # post" and p: "pid cartItem = Some sku" by auto
  from assms have sp: "(\<forall>y\<in>set pre. pid y \<noteq> Some sku) \<and> (\<forall>y\<in>set post. pid y \<noteq> Some sku)"
    unfolding c using p by (rule cart_ok_split)
  have ok: "cart_ok (pre @ cartItem # post)" using assms by (simp add: c)
  have "cart_ok (pre @ cartItem\<lparr>quantity := quantity cartItem + 1\<rparr> # post)"
    using ok by (auto simp: cart_ok_def)
  moreover have "cart_ok (pre @ post)"
    using ok by (auto simp: cart_ok_def)
  moreover have "\<not> quantity cartItem - 1 \<le> 0 \<Longrightarrow>
      cart_ok (pre @ cartItem\<lparr>quantity := quantity cartItem - 1\<rparr> # post)"
    using ok by (auto simp: cart_ok_def)
  ultimately show ?thesis
    using updateQuantity_found [OF c p, of action] sp assms by simp
qed

lemma cart_ok_run: "cart_ok (cart st) \<Longrightarrow> cart_ok (cart (run st intents))"
  unfolding run_def
proof (induction intents arbitrary: st)
  case Nil
  then show ?case by simp
next
  case (Cons i intents)
  have "cart_ok (cart (apply_intent st i))"
    using Cons.prems by (cases i) (simp_all add: cart_ok_addToCart cart_ok_updateQuantity)
  then show ?case using Cons.IH by simp
qed

lemma decrease_last_unit:
  assumes ok: "cart_ok (cart st)" and l: "l \<in> set (cart st)" and p: "pid l = Some sku"
    and q: "quantity l = 1"
  shows "(\<forall>l'\<in>set (cart (updateQuantity st sku ''decrease'')). pid l' \<noteq> Some sku)
    \<and> Suc (length (cart (updateQuantity st sku ''decrease''))) = length (cart st)"
proof -
  from l obtain pre post where c: "cart st = pre @ l # post" by (auto simp: in_set_conv_decomp)
  from ok have sp: "(\<forall>y\<in>set pre. pid y \<noteq> Some sku) \<and> (\<forall>y\<in>set post. pid y \<noteq> Some sku)"
    unfolding c using p by (rule cart_ok_split)
  have u: "cart (updateQuantity st sku ''decrease'') = pre @ post"
    using updateQuantity_found [OF c p, of "''decrease''"] sp q by simp
  show ?thesis using sp by (auto simp: u c)
qed

lemma addToCart_found:
  assumes c: "cart st = pre @ l # post" and p: "pid l = Some sku"
    and pre: "\<forall>y\<in>set pre. pid y \<noteq> Some sku"
    and inv: "find (\<lambda>p. pid p = Some sku) (inventory st) = Some product"
  shows "addToCart st sku = (True, st\<lparr>cart := pre @ l\<lparr>quantity := quantity l + 1\<rparr> # post\<rparr>)"
proof -
  have fnd: "find (\<lambda>item. pid item = Some sku) (cart st) = Some l"
    unfolding c using pre p by (induction pre) auto
  have m: "modify_found (\<lambda>item. pid item = Some sku) f (cart st) = pre @ f l # post" for f
    unfolding c using pre p by (intro modify_found_split) auto
  show ?thesis by (simp add: addToCart_def inv fnd m)
qed

lemma addToCart_new:
  assumes none: "\<forall>l\<in>set (cart st). pid l \<noteq> Some sku"
    and inv: "find (\<lambda>p. pid p = Some sku) (inventory st) = Some product"
  shows "addToCart st sku = (True, st\<lparr>cart := cart st @ [new_line product]\<rparr>)"
proof -
  from none have "find (\<lambda>item. pid item = Some sku) (cart st) = None"
    by (simp add: find_None_iff_lines)
  then show ?thesis by (simp add: addToCart_def inv)
qed

lemma inventory_offline: "inventory offline_shop = getFallbackInventory"
  and cart_offline: "cart offline_shop = []"
  by (simp_all add: offline_shop_def renderProducts_def loadConfig_def constructor_def)

lemma find_padang:
  "find (\<lambda>p. pid p = Some ''semen-padang'') getFallbackInventory = Some (getFallbackInventory ! 0)"
  by (simp add: getFallbackInventory_def)

lemma find_genteng:
  "find (\<lambda>p. pid p = Some ''genteng-beton'') getFallbackInventory = Some (getFallbackInventory ! 8)"
  by (simp add: getFallbackInventory_def)

lemma no_marmer: "\<forall>p\<in>set getFallbackInventory. pid p \<noteq> Some ''marmer''"
  by (simp add: getFallbackInventory_def)

lemma run_example:
  "cart (run offline_shop [AddToCart ''semen-padang'', AddToCart ''genteng-beton'',
          UpdateQuantity ''semen-padang'' ''increase''])
     = [(new_line (getFallbackInventory ! 0))\<lparr>quantity := 2\<rparr>, new_line (getFallbackInventory ! 8)]"
proof -
  have p0: "pid (new_line (getFallbackInventory ! 0)) = Some ''semen-padang''"
    and p8: "pid (new_line (getFallbackInventory ! 8)) = Some ''genteng-beton''"
    by (simp_all add: pid_new_line getFallbackInventory_def)
  show ?thesis
    by (simp add: run_def addToCart_def updateQuantity_def inventory_offline cart_offline
        find_padang find_genteng p0 p8 quantity_new_line)
qed

text \<open>
  Claim C6. After any sequence of \<open>addToCart\<close> and \<open>updateQuantity\<close> operations that
  starts from the empty cart, every cart line has a quantity of at least 1; and a
  decrease of a line whose quantity is 1 removes the line: the cart has no line with
  that identifier any more and is shorter by exactly one.
\<close>

theorem C6_cart_quantities:
  assumes "cart st0 = []" and "st = run st0 intents"
  shows "(\<forall>l\<in>set (cart st). 1 \<le> quantity l)
    \<and> (\<forall>l\<in>set (cart st). pid l = Some sku \<and> quantity l = 1 \<longrightarrow>
          (\<forall>l'\<in>set (cart (updateQuantity st sku ''decrease'')). pid l' \<noteq> Some sku)
          \<and> Suc (length (cart (updateQuantity st sku ''decrease''))) = length (cart st))"
proof -
  have "cart_ok (cart st0)" using assms(1) by (simp add: cart_ok_def)
  then have ok: "cart_ok (cart st)" unfolding assms(2) by (rule cart_ok_run)
  then show ?thesis using decrease_last_unit [OF ok] by (auto simp: cart_ok_def)
qed

text \<open>
  Two products added, one increased: two lines; the decrease of the line of quantity 1
  leaves one.
\<close>

theorem C6_cart_quantities_witness:
  "length (cart (run offline_shop [AddToCart ''semen-padang'', AddToCart ''genteng-beton'',
          UpdateQuantity ''semen-padang'' ''increase''])) = 2
   \<and> 1 \<le> quantity (cart (run offline_shop [AddToCart ''semen-padang'', AddToCart ''genteng-beton'',
          UpdateQuantity ''semen-padang'' ''increase'']) ! 1)
   \<and> length (cart (updateQuantity (run offline_shop [AddToCart ''semen-padang'', AddToCart ''genteng-beton'',
          UpdateQuantity ''semen-padang'' ''increase'']) ''genteng-beton'' ''decrease'')) = 1"
proof -
  define st where "st = run offline_shop [AddToCart ''semen-padang'', AddToCart ''genteng-beton'',
          UpdateQuantity ''semen-padang'' ''increase'']"
  have c: "cart st = [(new_line (getFallbackInventory ! 0))\<lparr>quantity := 2\<rparr>, new_line (getFallbackInventory ! 8)]"
    unfolding st_def by (rule run_example)
  have p8: "pid (new_line (getFallbackInventory ! 8)) = Some ''genteng-beton''"
    by (simp add: pid_new_line getFallbackInventory_def)
  note t = C6_cart_quantities [OF cart_offline st_def, of "''genteng-beton''"]
  from t have "1 \<le> quantity (new_line (getFallbackInventory ! 8))" by (simp add: c)
  moreover from t have "Suc (length (cart (updateQuantity st ''genteng-beton'' ''decrease''))) = length (cart st)"
    by (simp add: c p8 quantity_new_line)
  ultimately show ?thesis unfolding st_def [symmetric] by (simp add: c)
qed

text \<open>
  Claim C7. \<open>addToCart\<close> with an identifier that no product of the catalog has returns
  \<open>false\<close> and changes nothing. With an identifier of the catalog it returns \<open>true\<close>;
  when the cart has a line for the identifier, the quantity of that line grows by 1
  and nothing else in the cart changes; otherwise a copy of the product with quantity 1
  is appended at the end, and a second \<open>addToCart\<close> with the same identifier turns
  that one line into quantity 2.
\<close>

theorem C7_addToCart:
  "((\<forall>p\<in>set (inventory st). pid p \<noteq> Some sku) \<longrightarrow> addToCart st sku = (False, st))
   \<and> (\<forall>product. find (\<lambda>p. pid p = Some sku) (inventory st) = Some product \<longrightarrow>
        fst (addToCart st sku)
        \<and> inventory (snd (addToCart st sku)) = inventory st
        \<and> (\<forall>pre l post. cart st = pre @ l # post \<and> pid l = Some sku \<and> (\<forall>y\<in>set pre. pid y \<noteq> Some sku) \<longrightarrow>
              cart (snd (addToCart st sku)) = pre @ l\<lparr>quantity := quantity l + 1\<rparr> # post)
        \<and> ((\<forall>l\<in>set (cart st). pid l \<noteq> Some sku) \<longrightarrow>
              cart (snd (addToCart st sku)) = cart st @ [new_line product]
              \<and> cart (snd (addToCart (snd (addToCart st sku)) sku))
                  = cart st @ [(new_line product)\<lparr>quantity := 2\<rparr>]))"
proof (intro conjI allI impI)
  assume "\<forall>p\<in>set (inventory st). pid p \<noteq> Some sku"
  then have "find (\<lambda>p. pid p = Some sku) (inventory st) = None" by (simp add: find_None_iff_lines)
  then show "addToCart st sku = (False, st)" by (simp add: addToCart_def)
next
  fix product
  assume inv: "find (\<lambda>p. pid p = Some sku) (inventory st) = Some product"
  show "fst (addToCart st sku)" using inv by (simp add: addToCart_def split: option.splits)
  show "inventory (snd (addToCart st sku)) = inventory st"
    using inv by (simp add: addToCart_def split: option.splits)
  {
    fix pre l post
    assume "cart st = pre @ l # post \<and> pid l = Some sku \<and> (\<forall>y\<in>set pre. pid y \<noteq> Some sku)"
    then show "cart (snd (addToCart st sku)) = pre @ l\<lparr>quantity := quantity l + 1\<rparr> # post"
      using addToCart_found [of st pre l post sku product] inv by simp
  }
  {
    assume none: "\<forall>l\<in>set (cart st). pid l \<noteq> Some sku"
    then have one: "addToCart st sku = (True, st\<lparr>cart := cart st @ [new_line product]\<rparr>)"
      using inv by (rule addToCart_new)
    then show "cart (snd (addToCart st sku)) = cart st @ [new_line product]" by simp
    have "addToCart (st\<lparr>cart := cart st @ [new_line product]\<rparr>) sku
        = (True, st\<lparr>cart := cart st @ [new_line product], cart := cart st @ (new_line product)\<lparr>quantity := quantity (new_line product) + 1\<rparr> # []\<rparr>)"
    proof (rule addToCart_found)
      show "cart (st\<lparr>cart := cart st @ [new_line product]\<rparr>) = cart st @ new_line product # []" by simp
      from find_Some_split [OF inv] show "pid (new_line product) = Some sku"
        by (auto simp: pid_new_line)
      show "\<forall>y\<in>set (cart st). pid y \<noteq> Some sku" by (rule none)
      show "find (\<lambda>p. pid p = Some sku) (inventory (st\<lparr>cart := cart st @ [new_line product]\<rparr>)) = Some product"
        using inv by simp
    qed
    then show "cart (snd (addToCart (snd (addToCart st sku)) sku))
        = cart st @ [(new_line product)\<lparr>quantity := 2\<rparr>]"
      by (simp add: one quantity_new_line)
  }
qed

text \<open>
  An identifier that is not in the built-in catalog; a first and a second add of
  \<open>semen-padang\<close>; an add to a cart that has the line already, behind another line.
\<close>

theorem C7_addToCart_witness:
  "addToCart offline_shop ''marmer'' = (False, offline_shop)
   \<and> cart (snd (addToCart offline_shop ''semen-padang'')) = [new_line (getFallbackInventory ! 0)]
   \<and> cart (snd (addToCart (snd (addToCart offline_shop ''semen-padang'')) ''semen-padang''))
        = [(new_line (getFallbackInventory ! 0))\<lparr>quantity := 2\<rparr>]
   \<and> cart (snd (addToCart (offline_shop\<lparr>cart := [priced_line 5 1, (new_line (getFallbackInventory ! 0))\<lparr>quantity := 3\<rparr>]\<rparr>) ''semen-padang''))
        = [priced_line 5 1, (new_line (getFallbackInventory ! 0))\<lparr>quantity := 4\<rparr>]"
proof -
  have a: "addToCart offline_shop ''marmer'' = (False, offline_shop)"
    using C7_addToCart [of offline_shop "''marmer''"] no_marmer by (simp add: inventory_offline)
  have b: "cart (snd (addToCart offline_shop ''semen-padang'')) = [new_line (getFallbackInventory ! 0)]
    \<and> cart (snd (addToCart (snd (addToCart offline_shop ''semen-padang'')) ''semen-padang''))
        = [(new_line (getFallbackInventory ! 0))\<lparr>quantity := 2\<rparr>]"
    using C7_addToCart [of offline_shop "''semen-padang''"] find_padang
    by (simp add: inventory_offline cart_offline)
  define st where "st = offline_shop\<lparr>cart := [priced_line 5 1, (new_line (getFallbackInventory ! 0))\<lparr>quantity := 3\<rparr>]\<rparr>"
  have p1: "pid (priced_line 5 1) \<noteq> Some ''semen-padang''"
    by (simp add: priced_line_def empty_object_def product.defs cart_line.defs)
  have p2: "pid ((new_line (getFallbackInventory ! 0))\<lparr>quantity := 3\<rparr>) = Some ''semen-padang''"
    by (simp add: pid_new_line getFallbackInventory_def)
  have "cart st = [priced_line 5 1] @ (new_line (getFallbackInventory ! 0))\<lparr>quantity := 3\<rparr> # []
      \<and> pid ((new_line (getFallbackInventory ! 0))\<lparr>quantity := 3\<rparr>) = Some ''semen-padang''
      \<and> (\<forall>y\<in>set [priced_line 5 1]. pid y \<noteq> Some ''semen-padang'')"
    using p1 p2 by (simp add: st_def)
  moreover have "find (\<lambda>p. pid p = Some ''semen-padang'') (inventory st) = Some (getFallbackInventory ! 0)"
    by (simp add: st_def inventory_offline find_padang)
  ultimately have "cart (snd (addToCart st ''semen-padang''))
      = [priced_line 5 1] @ ((new_line (getFallbackInventory ! 0))\<lparr>quantity := 3\<rparr>)\<lparr>quantity := quantity ((new_line (getFallbackInventory ! 0))\<lparr>quantity := 3\<rparr>) + 1\<rparr> # []"
    using C7_addToCart [of st "''semen-padang''"] by blast
  then have c: "cart (snd (addToCart st ''semen-padang''))
      = [priced_line 5 1, (new_line (getFallbackInventory ! 0))\<lparr>quantity := 4\<rparr>]" by simp
  show ?thesis using a b c unfolding st_def by simp
qed

text \<open>
  Claim C10. \<open>updateQuantity\<close> with an action that is neither \<open>increase\<close> nor
  \<open>decrease\<close> leaves the cart, and the whole service, as it is.
\<close>

theorem C10_updateQuantity_other_action:
  "action \<noteq> ''increase'' \<Longrightarrow> action \<noteq> ''decrease'' \<Longrightarrow> updateQuantity st sku action = st"
  by (simp add: updateQuantity_def split: option.splits)

text \<open>The action \<open>remove\<close> on a line that is in the cart.\<close>

theorem C10_updateQuantity_other_action_witness:
  "updateQuantity (snd (addToCart offline_shop ''semen-padang'')) ''semen-padang'' ''remove''
     = snd (addToCart offline_shop ''semen-padang'')"
  using C10_updateQuantity_other_action [of "''remove''" "snd (addToCart offline_shop ''semen-padang'')" "''semen-padang''"]
  by simp

section \<open>Checkout and the displayed summary\<close>

lemma build_transaction_summary:
  assumes "taxRate st = dbl_0_11"
  shows "subtotal (build_transaction st c now) = subTotal (updateOrderSummary (st\<lparr>cart := c\<rparr>))"
    and "tax (build_transaction st c now) = taxAmount (updateOrderSummary (st\<lparr>cart := c\<rparr>))"
    and "total (build_transaction st c now) = totalAmount (updateOrderSummary (st\<lparr>cart := c\<rparr>))"
  using assms by (simp_all add: build_transaction_def updateOrderSummary_def Let_def)

lemma checkout_requests:
  "request \<in> set (snd (snd (checkout fetch now st cart_arg))) \<Longrightarrow>
   \<exists>c cfg. cart_arg = Some c \<and> c \<noteq> [] \<and> config st = Some cfg \<and> APPS_SCRIPT_URL cfg \<noteq> []
     \<and> snd (snd (checkout fetch now st cart_arg)) = [request]
     \<and> request = \<lparr>post_url = APPS_SCRIPT_URL cfg, post_bearer = SECRET_KEY cfg,
                    body_action = ''saveTransaction'', body_data = build_transaction st c now,
                    body_sheetId = FINANCE_SHEET_ID cfg\<rparr>"
  by (auto simp: checkout_def Let_def split: option.splits if_splits fetched.splits sum.splits)

lemma taxRate_constructor: "taxRate constructor = dbl_0_11"
  by (simp add: constructor_def)

lemma taxRate_preserved:
  "taxRate (loadConfig fetched_config st) = taxRate st"
  "taxRate (snd (addToCart st sku)) = taxRate st"
  "taxRate (updateQuantity st sku act) = taxRate st"
  "taxRate (clearCart st) = taxRate st"
  "taxRate (renderProducts grid st ps) = taxRate st"
  "taxRate (filterByCategory grid st cat) = taxRate st"
  "searchProducts grid st query = Inr st' \<Longrightarrow> taxRate st' = taxRate st"
  "taxRate (loadInventory js net grid st) = taxRate st"
  "taxRate (fst (snd (checkout fetch now st cart_arg))) = taxRate st"
  by (auto simp: loadConfig_def addToCart_def updateQuantity_def clearCart_def renderProducts_def
      filterByCategory_def searchProducts_def loadInventory_def checkout_def Let_def
      split: option.splits fetched.splits sum.splits if_splits)

lemma online_shop_fields:
  "config online_shop = Some example_config"
  "inventory online_shop = getFallbackInventory"
  "cart online_shop = [new_line (getFallbackInventory ! 0)]"
  "taxRate online_shop = dbl_0_11"
  by (simp_all add: online_shop_def addToCart_def renderProducts_def loadConfig_def constructor_def
      getFallbackInventory_def)

lemma string_of_nat_500: "string_of_nat 500 = ''500''"
  by (simp add: string_of_nat.simps digit_char_def)

lemma summary_online:
  "updateOrderSummary online_shop
     = \<lparr>subTotal = Some 165000, taxAmount = Some 18150, totalAmount = Some 183150, itemCount = 1\<rparr>"
  by (simp add: updateOrderSummary_def online_shop_fields new_line_def getFallbackInventory_def
      product.defs cart_line.defs reduce_def js_add_def js_mul_def Math_round_def js_times_dbl_def
      dbl_0_11_def to_double_def bit_length.simps Let_def)

lemma cart_online_not_empty: "cart online_shop \<noteq> []"
  by (simp add: online_shop_fields)

lemma url_example: "APPS_SCRIPT_URL example_config \<noteq> []"
  by (simp add: example_config_def)

lemma requests_online:
  "snd (snd (checkout fetch now online_shop (Some (cart online_shop))))
     = [\<lparr>post_url = APPS_SCRIPT_URL example_config, post_bearer = SECRET_KEY example_config,
         body_action = ''saveTransaction'',
         body_data = build_transaction online_shop (cart online_shop) now,
         body_sheetId = FINANCE_SHEET_ID example_config\<rparr>]"
  using cart_online_not_empty url_example
  by (auto simp: checkout_def Let_def online_shop_fields(1)
      split: option.splits if_splits fetched.splits sum.splits)

lemma offline_config:
  "config offline_shop = Some \<lparr>INVENTORY_SHEET_ID = [], FINANCE_SHEET_ID = [], APPS_SCRIPT_URL = [], SECRET_KEY = []\<rparr>"
  by (simp add: offline_shop_def renderProducts_def loadConfig_def)

text \<open>
  Claim C2. The tax rate of the service is \<open>0.11\<close> from the constructor on and no
  operation changes it (\<open>taxRate_constructor\<close>, \<open>taxRate_preserved\<close>). Then the
  subtotal, tax and total in the transaction that \<open>checkout\<close> sends for a cart are the
  subtotal, tax and total that \<open>updateOrderSummary\<close> displays for that cart.
\<close>

theorem C2_checkout_same_figures:
  assumes "taxRate st = dbl_0_11"
    and "request \<in> set (snd (snd (checkout fetch now st (Some c))))"
  shows "subtotal (body_data request) = subTotal (updateOrderSummary (st\<lparr>cart := c\<rparr>))
    \<and> tax (body_data request) = taxAmount (updateOrderSummary (st\<lparr>cart := c\<rparr>))
    \<and> total (body_data request) = totalAmount (updateOrderSummary (st\<lparr>cart := c\<rparr>))"
proof -
  from checkout_requests [OF assms(2)] have "body_data request = build_transaction st c now" by auto
  with assms(1) show ?thesis by (simp add: build_transaction_summary)
qed

text \<open>The online shop: the record sent and the display both say 165000, 18150, 183150.\<close>

theorem C2_checkout_same_figures_witness:
  "subtotal (body_data (hd (snd (snd (checkout refusing ''2024-05-01T08:00:00.000Z'' online_shop
       (Some (cart online_shop))))))) = Some 165000
   \<and> subTotal (updateOrderSummary online_shop) = Some 165000
   \<and> tax (body_data (hd (snd (snd (checkout refusing ''2024-05-01T08:00:00.000Z'' online_shop
       (Some (cart online_shop))))))) = Some 18150
   \<and> taxAmount (updateOrderSummary online_shop) = Some 18150
   \<and> total (body_data (hd (snd (snd (checkout refusing ''2024-05-01T08:00:00.000Z'' online_shop
       (Some (cart online_shop))))))) = Some 183150
   \<and> totalAmount (updateOrderSummary online_shop) = Some 183150"
proof -
  let ?requests = "snd (snd (checkout refusing ''2024-05-01T08:00:00.000Z'' online_shop (Some (cart online_shop))))"
  have "hd ?requests \<in> set ?requests" by (simp add: requests_online)
  from C2_checkout_same_figures [OF online_shop_fields(4) this]
  have "subtotal (body_data (hd ?requests)) = subTotal (updateOrderSummary online_shop)
    \<and> tax (body_data (hd ?requests)) = taxAmount (updateOrderSummary online_shop)
    \<and> total (body_data (hd ?requests)) = totalAmount (updateOrderSummary online_shop)"
    by simp
  then show ?thesis by (simp add: summary_online)
qed

text \<open>
  Claim C4. With no cart or an empty cart \<open>checkout\<close> fails with \<open>Cart is empty\<close>, and
  with an empty endpoint address with \<open>Apps Script URL not configured\<close>, both without a
  request. Whenever it fails the service, and so the cart, is unchanged. It sends at
  most one request, and when that request fails the error it returns carries the
  message at hand: the error the network rejected with, the status of a response that
  is not ok, the error of a body that is not JSON, or the \<open>error\<close> of a body without
  success (\<open>Checkout failed\<close> when it has none).
\<close>

theorem C4_checkout_failure:
  "(cart_arg = None \<or> cart_arg = Some [] \<longrightarrow>
      checkout fetch now st cart_arg = (Inl (Error ''Cart is empty''), st, []))
   \<and> (\<forall>c cfg. cart_arg = Some c \<and> c \<noteq> [] \<and> config st = Some cfg \<and> APPS_SCRIPT_URL cfg = [] \<longrightarrow>
        checkout fetch now st cart_arg = (Inl (Error ''Apps Script URL not configured''), st, []))
   \<and> (\<forall>e. fst (checkout fetch now st cart_arg) = Inl e \<longrightarrow>
        fst (snd (checkout fetch now st cart_arg)) = st)
   \<and> length (snd (snd (checkout fetch now st cart_arg))) \<le> 1
   \<and> (\<forall>request\<in>set (snd (snd (checkout fetch now st cart_arg))).
        (\<forall>e. fetch request = Rejected e \<longrightarrow> fst (checkout fetch now st cart_arg) = Inl e)
        \<and> (\<forall>r. fetch request = Response r \<and> \<not> ok r \<longrightarrow>
              fst (checkout fetch now st cart_arg)
                = Inl (Error (''HTTP error! status: '' @ string_of_nat (http_status r))))
        \<and> (\<forall>r e. fetch request = Response r \<and> ok r \<and> json r = Inl e \<longrightarrow>
              fst (checkout fetch now st cart_arg) = Inl e)
        \<and> (\<forall>r result. fetch request = Response r \<and> ok r \<and> json r = Inr result \<and> \<not> success result \<longrightarrow>
              fst (checkout fetch now st cart_arg)
                = Inl (Error (case error_field result of
                                None \<Rightarrow> ''Checkout failed''
                              | Some m \<Rightarrow> if m = [] then ''Checkout failed'' else m))))"
proof (intro conjI)
  show "cart_arg = None \<or> cart_arg = Some [] \<longrightarrow>
      checkout fetch now st cart_arg = (Inl (Error ''Cart is empty''), st, [])"
    by (auto simp: checkout_def)
  show "\<forall>c cfg. cart_arg = Some c \<and> c \<noteq> [] \<and> config st = Some cfg \<and> APPS_SCRIPT_URL cfg = [] \<longrightarrow>
        checkout fetch now st cart_arg = (Inl (Error ''Apps Script URL not configured''), st, [])"
    by (auto simp: checkout_def)
  show "\<forall>e. fst (checkout fetch now st cart_arg) = Inl e \<longrightarrow>
        fst (snd (checkout fetch now st cart_arg)) = st"
    by (auto simp: checkout_def Let_def split: option.splits if_splits fetched.splits sum.splits)
  show "length (snd (snd (checkout fetch now st cart_arg))) \<le> 1"
    by (auto simp: checkout_def Let_def split: option.splits if_splits fetched.splits sum.splits)
  show "\<forall>request\<in>set (snd (snd (checkout fetch now st cart_arg))).
        (\<forall>e. fetch request = Rejected e \<longrightarrow> fst (checkout fetch now st cart_arg) = Inl e)
        \<and> (\<forall>r. fetch request = Response r \<and> \<not> ok r \<longrightarrow>
              fst (checkout fetch now st cart_arg)
                = Inl (Error (''HTTP error! status: '' @ string_of_nat (http_status r))))
        \<and> (\<forall>r e. fetch request = Response r \<and> ok r \<and> json r = Inl e \<longrightarrow>
              fst (checkout fetch now st cart_arg) = Inl e)
        \<and> (\<forall>r result. fetch request = Response r \<and> ok r \<and> json r = Inr result \<and> \<not> success result \<longrightarrow>
              fst (checkout fetch now st cart_arg)
                = Inl (Error (case error_field result of
                                None \<Rightarrow> ''Checkout failed''
                              | Some m \<Rightarrow> if m = [] then ''Checkout failed'' else m)))"
  proof
    fix request
    assume "request \<in> set (snd (snd (checkout fetch now st cart_arg)))"
    from checkout_requests [OF this] obtain c cfg where
      h: "cart_arg = Some c" "c \<noteq> []" "config st = Some cfg" "APPS_SCRIPT_URL cfg \<noteq> []"
      "request = \<lparr>post_url = APPS_SCRIPT_URL cfg, post_bearer = SECRET_KEY cfg,
                    body_action = ''saveTransaction'', body_data = build_transaction st c now,
                    body_sheetId = FINANCE_SHEET_ID cfg\<rparr>" by blast
    show "(\<forall>e. fetch request = Rejected e \<longrightarrow> fst (checkout fetch now st cart_arg) = Inl e)
        \<and> (\<forall>r. fetch request = Response r \<and> \<not> ok r \<longrightarrow>
              fst (checkout fetch now st cart_arg)
                = Inl (Error (''HTTP error! status: '' @ string_of_nat (http_status r))))
        \<and> (\<forall>r e. fetch request = Response r \<and> ok r \<and> json r = Inl e \<longrightarrow>
              fst (checkout fetch now st cart_arg) = Inl e)
        \<and> (\<forall>r result. fetch request = Response r \<and> ok r \<and> json r = Inr result \<and> \<not> success result \<longrightarrow>
              fst (checkout fetch now st cart_arg)
                = Inl (Error (case error_field result of
                                None \<Rightarrow> ''Checkout failed''
                              | Some m \<Rightarrow> if m = [] then ''Checkout failed'' else m)))"
      using h by (auto simp: checkout_def Let_def)
  qed
qed

text \<open>
  An empty cart; the offline shop, whose endpoint address is empty; and the online shop
  with a network that rejects, a response of status 500, and a body that reports
  \<open>Sheet is locked\<close>.
\<close>

theorem C4_checkout_failure_witness:
  "checkout accepting ''2024-05-01T08:00:00.000Z'' online_shop (Some [])
     = (Inl (Error ''Cart is empty''), online_shop, [])
   \<and> checkout accepting ''2024-05-01T08:00:00.000Z'' offline_shop (Some [priced_line 5 1])
     = (Inl (Error ''Apps Script URL not configured''), offline_shop, [])
   \<and> fst (checkout unreachable ''2024-05-01T08:00:00.000Z'' online_shop (Some (cart online_shop)))
     = Inl (TypeError ''Failed to fetch'')
   \<and> fst (checkout failing ''2024-05-01T08:00:00.000Z'' online_shop (Some (cart online_shop)))
     = Inl (Error ''HTTP error! status: 500'')
   \<and> fst (checkout refusing ''2024-05-01T08:00:00.000Z'' online_shop (Some (cart online_shop)))
     = Inl (Error ''Sheet is locked'')
   \<and> fst (snd (checkout refusing ''2024-05-01T08:00:00.000Z'' online_shop (Some (cart online_shop))))
     = online_shop"
proof -
  let ?now = "''2024-05-01T08:00:00.000Z''"
  let ?request = "\<lparr>post_url = APPS_SCRIPT_URL example_config, post_bearer = SECRET_KEY example_config,
         body_action = ''saveTransaction'',
         body_data = build_transaction online_shop (cart online_shop) ?now,
         body_sheetId = FINANCE_SHEET_ID example_config\<rparr>"
  have a: "checkout accepting ?now online_shop (Some []) = (Inl (Error ''Cart is empty''), online_shop, [])"
    using C4_checkout_failure [of "Some []" accepting ?now online_shop] by simp
  have "priced_line 5 1 # [] \<noteq> []" by simp
  then have b: "checkout accepting ?now offline_shop (Some [priced_line 5 1])
      = (Inl (Error ''Apps Script URL not configured''), offline_shop, [])"
    using C4_checkout_failure [of "Some [priced_line 5 1]" accepting ?now offline_shop] offline_config
    by simp
  have c: "fst (checkout unreachable ?now online_shop (Some (cart online_shop))) = Inl (TypeError ''Failed to fetch'')"
    using C4_checkout_failure [of "Some (cart online_shop)" unreachable ?now online_shop]
    by (simp add: requests_online unreachable_def)
  have d: "fst (checkout failing ?now online_shop (Some (cart online_shop))) = Inl (Error ''HTTP error! status: 500'')"
    using C4_checkout_failure [of "Some (cart online_shop)" failing ?now online_shop]
    by (simp add: requests_online failing_def string_of_nat_500)
  have e: "fst (checkout refusing ?now online_shop (Some (cart online_shop))) = Inl (Error ''Sheet is locked'')"
    using C4_checkout_failure [of "Some (cart online_shop)" refusing ?now online_shop]
    by (simp add: requests_online refusing_def)
  have f: "fst (snd (checkout refusing ?now online_shop (Some (cart online_shop)))) = online_shop"
    using C4_checkout_failure [of "Some (cart online_shop)" refusing ?now online_shop] e
    by simp
  from a b c d e f show ?thesis by simp
qed

text \<open>
  Claim C5, as the code has it. When \<open>checkout\<close> succeeds it has emptied the cart
  itself, under the comment \<open>Clear cart after successful checkout\<close>, and changed nothing
  else of the service.
\<close>

theorem C5_checkout_clears_cart:
  "fst (checkout fetch now st cart_arg) = Inr result \<Longrightarrow>
   fst (snd (checkout fetch now st cart_arg)) = st\<lparr>cart := []\<rparr>"
  by (auto simp: checkout_def Let_def split: option.splits if_splits fetched.splits sum.splits)

text \<open>The online shop after a \<open>checkout\<close> that the endpoint accepts.\<close>

theorem C5_checkout_clears_cart_witness:
  "fst (snd (checkout accepting ''2024-05-01T08:00:00.000Z'' online_shop (Some (cart online_shop))))
     = online_shop\<lparr>cart := []\<rparr>"
proof -
  have "fst (checkout accepting ''2024-05-01T08:00:00.000Z'' online_shop (Some (cart online_shop)))
      = Inr \<lparr>success = True, error_field = None\<rparr>"
    using cart_online_not_empty url_example
    by (simp add: checkout_def Let_def online_shop_fields(1) accepting_def)
  then show ?thesis by (rule C5_checkout_clears_cart)
qed

text \<open>
  So a successful \<open>checkout\<close> does not leave the cart to its caller: the online shop
  has one line in its cart, and after a \<open>checkout\<close> that the endpoint accepts the cart
  is empty.
\<close>

theorem C5_checkout_counterexample:
  "fst (checkout accepting ''2024-05-01T08:00:00.000Z'' online_shop (Some (cart online_shop)))
      = Inr \<lparr>success = True, error_field = None\<rparr>
   \<and> cart online_shop = [new_line (getFallbackInventory ! 0)]
   \<and> cart (fst (snd (checkout accepting ''2024-05-01T08:00:00.000Z'' online_shop (Some (cart online_shop))))) = []"
  using cart_online_not_empty url_example
  by (simp add: checkout_def Let_def online_shop_fields(1) online_shop_fields(3) accepting_def)

section \<open>The flat file\<close>

lemma split_not_Nil: "split c s \<noteq> []"
  by (induction s) (auto split: list.splits)

lemma parse_rows_eq:
  "parse_rows js headers rest products =
     products @ map with_image
       (filter (\<lambda>p. truthy (pid p) \<and> truthy (name p))
          (map (row_product js headers) (filter (\<lambda>line. trim line \<noteq> []) rest)))"
  by (induction rest arbitrary: products) (simp_all add: Let_def)

lemma pid_with_image: "pid (with_image p) = pid p" and name_with_image: "name (with_image p) = name p"
  by (simp_all add: with_image_def)

lemma row_product_Nil: "row_product js [] line = empty_object"
  by (simp add: row_product_def)

lemma row_product_snoc:
  "row_product js (hs @ [h]) line
     = assign js h (value_at (cells line) (length hs)) (row_product js hs line)"
  by (simp add: row_product_def cells_def Let_def)

lemma last_column_Nil: "last_column names [] = None"
  by (simp add: last_column_def)

lemma last_column_snoc:
  "last_column names (hs @ [h])
     = (if toLowerCase h \<in> set names then Some (length hs) else last_column names hs)"
proof -
  have "find (\<lambda>i. toLowerCase ((hs @ [h]) ! i) \<in> set names) (rev [0 ..< length hs])
      = find (\<lambda>i. toLowerCase (hs ! i) \<in> set names) (rev [0 ..< length hs])"
    by (rule find_cong) (simp_all add: nth_append)
  then show ?thesis by (simp add: last_column_def)
qed

lemma cell_of_Nil: "cell_of names [] values = None"
  by (simp add: cell_of_def last_column_Nil)

lemma cell_of_snoc:
  "cell_of names (hs @ [h]) values
     = (if toLowerCase h \<in> set names then Some (value_at values (length hs))
        else cell_of names hs values)"
  by (simp add: cell_of_def last_column_snoc)

lemma assign_fields:
  "pid (assign js h v p) = (if toLowerCase h \<in> set [''sku'', ''id''] then Some v else pid p)"
  "name (assign js h v p)
     = (if toLowerCase h \<in> set [''nama_item'', ''name'', ''product_name''] then Some v else name p)"
  "price (assign js h v p)
     = (if toLowerCase h \<in> set [''harga_jual'', ''price''] then or_zero (parseFloat js v) else price p)"
  "category (assign js h v p)
     = (if toLowerCase h \<in> set [''kategori'', ''category''] then Some v else category p)"
  "weight (assign js h v p)
     = (if toLowerCase h \<in> set [''satuan'', ''weight'', ''unit''] then Some v else weight p)"
  "image_url (assign js h v p)
     = (if toLowerCase h \<in> set [''image'', ''image_url''] then Some v else image_url p)"
  "stock (assign js h v p)
     = (if toLowerCase h \<in> set [''jumlah'', ''stock'', ''quantity''] then or_zero (parseInt js v) else stock p)"
  "costPrice (assign js h v p)
     = (if toLowerCase h \<in> set [''harga_beli''] then or_zero (parseFloat js v) else costPrice p)"
  "vendor (assign js h v p)
     = (if toLowerCase h \<in> set [''nama_vendor'', ''vendor''] then Some v else vendor p)"
  by (simp_all add: assign_def Let_def)

lemma assign_extra:
  "map_of (extra (assign js h v p)) k
     = (if toLowerCase h \<notin> set known_headers \<and> k = toLowerCase h then Some v
        else map_of (extra p) k)"
  by (simp add: assign_def Let_def known_headers_def update_conv')

lemma row_fields:
  "pid (row_product js headers line) = cell_of [''sku'', ''id''] headers (cells line)"
  "name (row_product js headers line)
     = cell_of [''nama_item'', ''name'', ''product_name''] headers (cells line)"
  "price (row_product js headers line)
     = Option.bind (cell_of [''harga_jual'', ''price''] headers (cells line)) (\<lambda>v. or_zero (parseFloat js v))"
  "category (row_product js headers line) = cell_of [''kategori'', ''category''] headers (cells line)"
  "weight (row_product js headers line) = cell_of [''satuan'', ''weight'', ''unit''] headers (cells line)"
  "image_url (row_product js headers line) = cell_of [''image'', ''image_url''] headers (cells line)"
  "stock (row_product js headers line)
     = Option.bind (cell_of [''jumlah'', ''stock'', ''quantity''] headers (cells line)) (\<lambda>v. or_zero (parseInt js v))"
  "costPrice (row_product js headers line)
     = Option.bind (cell_of [''harga_beli''] headers (cells line)) (\<lambda>v. or_zero (parseFloat js v))"
  "vendor (row_product js headers line) = cell_of [''nama_vendor'', ''vendor''] headers (cells line)"
  by (induction headers rule: rev_induct;
      simp add: row_product_Nil empty_object_def cell_of_Nil row_product_snoc cell_of_snoc assign_fields)+

lemma row_extra:
  "map_of (extra (row_product js headers line)) k
     = (if k \<in> set known_headers then None else cell_of [k] headers (cells line))"
proof (induction headers rule: rev_induct)
  case Nil
  show ?case by (simp add: row_product_Nil empty_object_def cell_of_Nil)
next
  case (snoc h hs)
  show ?case
    by (auto simp: row_product_snoc cell_of_snoc assign_extra snoc.IH)
qed

lemma example_products:
  "map with_image
       (filter (\<lambda>p. truthy (pid p) \<and> truthy (name p))
          (map (row_product digits_only (map trim (split CHR '','' (hd (split CHR 0x0A example_csv)))))
             (filter (\<lambda>line. trim line \<noteq> []) (tl (split CHR 0x0A example_csv)))))
   = [empty_object\<lparr>pid := Some ''A1'', name := Some ''Semen Padang'', price := Some 165000,
                    image_url := Some ''Asset/assets/img/products/A1.png''\<rparr>,
      empty_object\<lparr>pid := Some ''C3'', name := Some ''Bata'', price := Some 0,
                    image_url := Some ''Asset/assets/img/products/C3.png''\<rparr>]"
  by code_simp

lemma example_products_en:
  "map with_image
       (filter (\<lambda>p. truthy (pid p) \<and> truthy (name p))
          (map (row_product digits_only (map trim (split CHR '','' (hd (split CHR 0x0A example_csv_en)))))
             (filter (\<lambda>line. trim line \<noteq> []) (tl (split CHR 0x0A example_csv_en)))))
   = [\<lparr>pid = Some ''P1'', name = Some ''Pasir'', price = Some 90000, category = Some ''pasir'',
        weight = Some ''1 Sak'', image_url = Some ''Asset/assets/img/products/P1.png'',
        stock = Some 12, costPrice = None, vendor = None, extra = [(''warna'', ''abu'')]\<rparr>]"
  by code_simp

text \<open>
  Claim C8. The products that \<open>parseCSV\<close> returns are the objects built from the lines
  after the header that are not blank, one line at a time and in their order, without
  those that lack an identifier or lack a name (absent or empty), each with the default
  image when it has none. The object built from a line has, in each field, the cell of
  the line in the last column that the header row gives one of the names of the field:
  \<open>sku\<close> or \<open>id\<close> for the identifier, \<open>nama_item\<close>, \<open>name\<close> or \<open>product_name\<close> for the name, and
  so on, in any mix of upper and lower case; numbers are read by \<open>parseFloat\<close> and
  \<open>parseInt\<close> with 0 for what they cannot read; a column with any other header is kept
  under that header in lower case. So a row is dropped exactly when its identifier cell
  or its name cell is missing or empty after trimming, in particular a row with an
  identifier and no name, and every other row becomes the product that its cells spell out.
\<close>

theorem C8_parseCSV_rows:
  "parseCSV js csvText =
     map with_image
       (filter (\<lambda>p. truthy (pid p) \<and> truthy (name p))
          (map (row_product js (map trim (split CHR '','' (hd (split CHR 0x0A csvText)))))
             (filter (\<lambda>line. trim line \<noteq> []) (tl (split CHR 0x0A csvText)))))
   \<and> (\<forall>p\<in>set (parseCSV js csvText). truthy (pid p) \<and> truthy (name p))
   \<and> pid (row_product js headers line) = cell_of [''sku'', ''id''] headers (cells line)
   \<and> name (row_product js headers line)
        = cell_of [''nama_item'', ''name'', ''product_name''] headers (cells line)
   \<and> price (row_product js headers line)
        = Option.bind (cell_of [''harga_jual'', ''price''] headers (cells line))
            (\<lambda>v. or_zero (parseFloat js v))
   \<and> category (row_product js headers line) = cell_of [''kategori'', ''category''] headers (cells line)
   \<and> weight (row_product js headers line)
        = cell_of [''satuan'', ''weight'', ''unit''] headers (cells line)
   \<and> image_url (row_product js headers line) = cell_of [''image'', ''image_url''] headers (cells line)
   \<and> stock (row_product js headers line)
        = Option.bind (cell_of [''jumlah'', ''stock'', ''quantity''] headers (cells line))
            (\<lambda>v. or_zero (parseInt js v))
   \<and> costPrice (row_product js headers line)
        = Option.bind (cell_of [''harga_beli''] headers (cells line)) (\<lambda>v. or_zero (parseFloat js v))
   \<and> vendor (row_product js headers line) = cell_of [''nama_vendor'', ''vendor''] headers (cells line)
   \<and> map_of (extra (row_product js headers line)) k
        = (if k \<in> set known_headers then None else cell_of [k] headers (cells line))"
proof -
  obtain first rest where sp: "split CHR 0x0A csvText = first # rest"
    using split_not_Nil [of "CHR 0x0A" csvText] by (cases "split CHR 0x0A csvText") auto
  have eq: "parseCSV js csvText =
     map with_image
       (filter (\<lambda>p. truthy (pid p) \<and> truthy (name p))
          (map (row_product js (map trim (split CHR '','' (hd (split CHR 0x0A csvText)))))
             (filter (\<lambda>line. trim line \<noteq> []) (tl (split CHR 0x0A csvText)))))"
    by (simp add: parseCSV_def sp parse_rows_eq)
  have kept: "\<forall>p\<in>set (parseCSV js csvText). truthy (pid p) \<and> truthy (name p)"
    unfolding eq by (auto simp: pid_with_image name_with_image)
  show ?thesis
    using eq kept row_fields [of js headers line] row_extra [of js headers line k]
    by (intro conjI) assumption+
qed

text \<open>
  The first example file: the row \<open>B2\<close> has no name and is dropped, the blank lines are
  skipped, and the rows \<open>A1\<close> and \<open>C3\<close> are products, the short row with price 0. The second
  file, with English headers: \<open>P1\<close> is a product with all its fields and the unknown
  column, the row \<open>P2\<close> is dropped because its name, a no-break space, is empty once
  trimmed, and the row without identifier is dropped.
\<close>

theorem C8_parseCSV_rows_witness:
  "parseCSV digits_only example_csv =
     [empty_object\<lparr>pid := Some ''A1'', name := Some ''Semen Padang'', price := Some 165000,
                    image_url := Some ''Asset/assets/img/products/A1.png''\<rparr>,
      empty_object\<lparr>pid := Some ''C3'', name := Some ''Bata'', price := Some 0,
                    image_url := Some ''Asset/assets/img/products/C3.png''\<rparr>]
   \<and> parseCSV digits_only example_csv_en =
     [\<lparr>pid = Some ''P1'', name = Some ''Pasir'', price = Some 90000, category = Some ''pasir'',
        weight = Some ''1 Sak'', image_url = Some ''Asset/assets/img/products/P1.png'',
        stock = Some 12, costPrice = None, vendor = None, extra = [(''warna'', ''abu'')]\<rparr>]
   \<and> name (row_product digits_only [''ID'', ''Name'', ''Price''] (''P2,'' @ [CHR 0xA0] @ '',5000''))
       = Some ''''"
proof -
  from C8_parseCSV_rows [of digits_only example_csv "[]" "[]" "[]"]
  have a: "parseCSV digits_only example_csv =
     map with_image
       (filter (\<lambda>p. truthy (pid p) \<and> truthy (name p))
          (map (row_product digits_only (map trim (split CHR '','' (hd (split CHR 0x0A example_csv)))))
             (filter (\<lambda>line. trim line \<noteq> []) (tl (split CHR 0x0A example_csv)))))"
    by (rule conjunct1)
  from C8_parseCSV_rows [of digits_only example_csv_en "[]" "[]" "[]"]
  have b: "parseCSV digits_only example_csv_en =
     map with_image
       (filter (\<lambda>p. truthy (pid p) \<and> truthy (name p))
          (map (row_product digits_only (map trim (split CHR '','' (hd (split CHR 0x0A example_csv_en)))))
             (filter (\<lambda>line. trim line \<noteq> []) (tl (split CHR 0x0A example_csv_en)))))"
    by (rule conjunct1)
  have "cell_of [''nama_item'', ''name'', ''product_name''] [''ID'', ''Name'', ''Price'']
      (cells (''P2,'' @ [CHR 0xA0] @ '',5000'')) = Some ''''"
    by code_simp
  with C8_parseCSV_rows [of digits_only "[]" "[''ID'', ''Name'', ''Price'']" "''P2,'' @ [CHR 0xA0] @ '',5000''" "[]"]
  have c: "name (row_product digits_only [''ID'', ''Name'', ''Price''] (''P2,'' @ [CHR 0xA0] @ '',5000''))
       = Some ''''"
    by simp
  from a b c show ?thesis by (simp only: example_products example_products_en simp_thms)
qed

section \<open>The catalog\<close>

lemma fetchFromGoogleSheets_result:
  assumes "config st = Some cfg"
  shows "snd (fetchFromGoogleSheets net st)
           = [APPS_SCRIPT_URL cfg @ ''?action=getInventory&sheetId='' @ INVENTORY_SHEET_ID cfg]"
    and "api_failed (api_get net (APPS_SCRIPT_URL cfg @ ''?action=getInventory&sheetId='' @ INVENTORY_SHEET_ID cfg)
           (SECRET_KEY cfg)) \<Longrightarrow> \<exists>e. fst (fetchFromGoogleSheets net st) = Inl e"
    and "api_get net (APPS_SCRIPT_URL cfg @ ''?action=getInventory&sheetId='' @ INVENTORY_SHEET_ID cfg)
           (SECRET_KEY cfg) = Response r \<Longrightarrow> ok r \<Longrightarrow> json r = Inr d \<Longrightarrow>
         fst (fetchFromGoogleSheets net st) = Inr (case data_products d of None \<Rightarrow> [] | Some ps \<Rightarrow> ps)"
  using assms
  by (auto simp: fetchFromGoogleSheets_def Let_def split: fetched.splits sum.splits)

lemma fallback_length: "length getFallbackInventory = 10"
  by (simp add: getFallbackInventory_def)

lemma online_config: "config online_shop = Some example_config"
  by (simp add: online_shop_def addToCart_def renderProducts_def loadConfig_def split: option.splits)

lemma urls_differ: "googleSheetsUrl \<noteq> localCsvUrl"
  by (simp add: googleSheetsUrl_def localCsvUrl_def)

text \<open>
  Claim C3, as the code has it. \<open>getInventory\<close> never throws. With a configuration that
  names both sheet and endpoint it asks the structured source only, and returns its
  products (none when the body has no list) or, when that source fails, the built-in
  list, without asking for a flat file. With a configuration that lacks one of the two
  it asks for the remote flat file and returns the rows of an answer that is ok; when
  that request is rejected it asks for the local flat file and returns the rows of an
  answer that is ok; when that request is rejected too it returns the built-in list.
  The built-in list has ten products.
\<close>

theorem C3_getInventory_sources:
  "(\<exists>found. fst (getInventory js net st) = Inr found)
   \<and> (\<forall>cfg. config st = Some cfg \<and> INVENTORY_SHEET_ID cfg \<noteq> [] \<and> APPS_SCRIPT_URL cfg \<noteq> [] \<longrightarrow>
        snd (getInventory js net st)
          = [APPS_SCRIPT_URL cfg @ ''?action=getInventory&sheetId='' @ INVENTORY_SHEET_ID cfg]
        \<and> (api_failed (api_get net
               (APPS_SCRIPT_URL cfg @ ''?action=getInventory&sheetId='' @ INVENTORY_SHEET_ID cfg)
               (SECRET_KEY cfg)) \<longrightarrow>
             fst (getInventory js net st) = Inr getFallbackInventory)
        \<and> (\<forall>r d. api_get net
               (APPS_SCRIPT_URL cfg @ ''?action=getInventory&sheetId='' @ INVENTORY_SHEET_ID cfg)
               (SECRET_KEY cfg) = Response r \<and> ok r \<and> json r = Inr d \<longrightarrow>
             fst (getInventory js net st) = Inr (case data_products d of None \<Rightarrow> [] | Some ps \<Rightarrow> ps)))
   \<and> (\<forall>cfg. config st = Some cfg \<and> (INVENTORY_SHEET_ID cfg = [] \<or> APPS_SCRIPT_URL cfg = []) \<longrightarrow>
        (\<forall>r. csv_get net googleSheetsUrl = Response r \<and> csv_ok r \<longrightarrow>
           getInventory js net st = (Inr (parseCSV js (csv_body r)), [googleSheetsUrl]))
        \<and> (\<forall>e r. csv_get net googleSheetsUrl = Rejected e
                  \<and> csv_get net localCsvUrl = Response r \<and> csv_ok r \<longrightarrow>
             getInventory js net st = (Inr (parseCSV js (csv_body r)), [googleSheetsUrl, localCsvUrl]))
        \<and> (\<forall>e e'. csv_get net googleSheetsUrl = Rejected e \<and> csv_get net localCsvUrl = Rejected e' \<longrightarrow>
             getInventory js net st = (Inr getFallbackInventory, [googleSheetsUrl, localCsvUrl])))
   \<and> length getFallbackInventory = 10"
proof (intro conjI allI impI)
  show "\<exists>found. fst (getInventory js net st) = Inr found"
    by (simp add: getInventory_def Let_def split: sum.splits)
  show "length getFallbackInventory = 10" by (rule fallback_length)
next
  fix cfg
  assume c: "config st = Some cfg \<and> INVENTORY_SHEET_ID cfg \<noteq> [] \<and> APPS_SCRIPT_URL cfg \<noteq> []"
  then have g: "getInventory js net st =
      (case fst (fetchFromGoogleSheets net st) of
         Inr found \<Rightarrow> (Inr found, snd (fetchFromGoogleSheets net st))
       | Inl error \<Rightarrow> (Inr getFallbackInventory, snd (fetchFromGoogleSheets net st)))"
    by (simp add: getInventory_def Let_def)
  from c have cfg: "config st = Some cfg" by simp
  show "snd (getInventory js net st)
          = [APPS_SCRIPT_URL cfg @ ''?action=getInventory&sheetId='' @ INVENTORY_SHEET_ID cfg]"
    using fetchFromGoogleSheets_result(1) [OF cfg, of net] by (simp add: g split: sum.splits)
  assume "api_failed (api_get net
               (APPS_SCRIPT_URL cfg @ ''?action=getInventory&sheetId='' @ INVENTORY_SHEET_ID cfg)
               (SECRET_KEY cfg))"
  from fetchFromGoogleSheets_result(2) [OF cfg this]
  show "fst (getInventory js net st) = Inr getFallbackInventory"
    by (auto simp: g)
next
  fix cfg r d
  assume c: "config st = Some cfg \<and> INVENTORY_SHEET_ID cfg \<noteq> [] \<and> APPS_SCRIPT_URL cfg \<noteq> []"
    and r: "api_get net
               (APPS_SCRIPT_URL cfg @ ''?action=getInventory&sheetId='' @ INVENTORY_SHEET_ID cfg)
               (SECRET_KEY cfg) = Response r \<and> ok r \<and> json r = Inr d"
  from c have cfg: "config st = Some cfg" by simp
  from r have "fst (fetchFromGoogleSheets net st) = Inr (case data_products d of None \<Rightarrow> [] | Some ps \<Rightarrow> ps)"
    using fetchFromGoogleSheets_result(3) [OF cfg, of net r d] by simp
  with c show "fst (getInventory js net st) = Inr (case data_products d of None \<Rightarrow> [] | Some ps \<Rightarrow> ps)"
    by (simp add: getInventory_def Let_def)
next
  fix cfg r
  assume c: "config st = Some cfg \<and> (INVENTORY_SHEET_ID cfg = [] \<or> APPS_SCRIPT_URL cfg = [])"
    and "csv_get net googleSheetsUrl = Response r \<and> csv_ok r"
  then show "getInventory js net st = (Inr (parseCSV js (csv_body r)), [googleSheetsUrl])"
    by (auto simp: getInventory_def Let_def fetchFromCSV_def)
next
  fix cfg e r
  assume c: "config st = Some cfg \<and> (INVENTORY_SHEET_ID cfg = [] \<or> APPS_SCRIPT_URL cfg = [])"
    and "csv_get net googleSheetsUrl = Rejected e \<and> csv_get net localCsvUrl = Response r \<and> csv_ok r"
  then show "getInventory js net st = (Inr (parseCSV js (csv_body r)), [googleSheetsUrl, localCsvUrl])"
    by (auto simp: getInventory_def Let_def fetchFromCSV_def)
next
  fix cfg e e'
  assume c: "config st = Some cfg \<and> (INVENTORY_SHEET_ID cfg = [] \<or> APPS_SCRIPT_URL cfg = [])"
    and "csv_get net googleSheetsUrl = Rejected e \<and> csv_get net localCsvUrl = Rejected e'"
  then show "getInventory js net st = (Inr getFallbackInventory, [googleSheetsUrl, localCsvUrl])"
    by (auto simp: getInventory_def Let_def fetchFromCSV_def)
qed

text \<open>
  The offline shop with nothing reachable, with only the local flat file reachable, and
  with the remote flat file reachable; and the online shop with nothing reachable, and
  with a structured source that answers.
\<close>

theorem C3_getInventory_sources_witness:
  "getInventory digits_only all_down offline_shop
        = (Inr getFallbackInventory, [googleSheetsUrl, localCsvUrl])
   \<and> getInventory digits_only remote_down offline_shop
        = (Inr (parseCSV digits_only example_csv_en), [googleSheetsUrl, localCsvUrl])
   \<and> getInventory digits_only api_down offline_shop
        = (Inr (parseCSV digits_only example_csv), [googleSheetsUrl])
   \<and> getInventory digits_only all_down online_shop
        = (Inr getFallbackInventory, [''https://script.example/exec?action=getInventory&sheetId=inventory-sheet''])
   \<and> getInventory digits_only api_up online_shop
        = (Inr [getFallbackInventory ! 9], [''https://script.example/exec?action=getInventory&sheetId=inventory-sheet''])"
proof -
  have b: "getInventory digits_only all_down offline_shop
        = (Inr getFallbackInventory, [googleSheetsUrl, localCsvUrl])"
    using C3_getInventory_sources [of digits_only all_down offline_shop]
    by (simp add: offline_config all_down_def)
  have r: "getInventory digits_only remote_down offline_shop
        = (Inr (parseCSV digits_only example_csv_en), [googleSheetsUrl, localCsvUrl])"
    using C3_getInventory_sources [of digits_only remote_down offline_shop] urls_differ
    by (simp add: offline_config remote_down_def)
  have c: "getInventory digits_only api_down offline_shop
        = (Inr (parseCSV digits_only example_csv), [googleSheetsUrl])"
    using C3_getInventory_sources [of digits_only api_down offline_shop]
    by (simp add: offline_config api_down_def)
  have "snd (getInventory digits_only all_down online_shop)
         = [''https://script.example/exec?action=getInventory&sheetId=inventory-sheet'']
      \<and> fst (getInventory digits_only all_down online_shop) = Inr getFallbackInventory"
    using C3_getInventory_sources [of digits_only all_down online_shop]
    by (simp add: online_config example_config_def all_down_def)
  then have d: "getInventory digits_only all_down online_shop
        = (Inr getFallbackInventory, [''https://script.example/exec?action=getInventory&sheetId=inventory-sheet''])"
    by (simp add: prod_eq_iff)
  have "snd (getInventory digits_only api_up online_shop)
         = [''https://script.example/exec?action=getInventory&sheetId=inventory-sheet'']
      \<and> fst (getInventory digits_only api_up online_shop) = Inr [getFallbackInventory ! 9]"
    using C3_getInventory_sources [of digits_only api_up online_shop]
    by (simp add: online_config example_config_def api_up_def)
  then have u: "getInventory digits_only api_up online_shop
        = (Inr [getFallbackInventory ! 9], [''https://script.example/exec?action=getInventory&sheetId=inventory-sheet''])"
    by (simp add: prod_eq_iff)
  from b r c d u show ?thesis by simp
qed

text \<open>
  So a failure of the configured structured source is not followed by an attempt on the
  remote flat file: with a configuration that names sheet and endpoint, a structured
  source that cannot be reached and a remote flat file that can, \<open>getInventory\<close> sends
  the one request to the endpoint and returns the built-in list.
\<close>

theorem C3_getInventory_counterexample:
  "api_failed (api_get api_down ''https://script.example/exec?action=getInventory&sheetId=inventory-sheet'' ''secret'')
   \<and> csv_get api_down googleSheetsUrl = Response \<lparr>csv_ok = True, csv_status = 200, csv_body = example_csv\<rparr>
   \<and> getInventory digits_only api_down online_shop
        = (Inr getFallbackInventory, [''https://script.example/exec?action=getInventory&sheetId=inventory-sheet''])
   \<and> googleSheetsUrl \<notin> set (snd (getInventory digits_only api_down online_shop))"
  by (simp add: getInventory_def fetchFromGoogleSheets_def Let_def online_config example_config_def
      api_down_def googleSheetsUrl_def)

section \<open>Search and filter\<close>

lemma fallback_semen:
  "filter_try (matches ''semen'') getFallbackInventory = Inr (take 7 getFallbackInventory)"
  by code_simp

lemma fallback_pintu:
  "filter_try (matches ''pintu'') getFallbackInventory = Inr [getFallbackInventory ! 9]"
  by code_simp

lemma semen_pintu:
  "filter_try (matches ''pintu'') (take 7 getFallbackInventory) = Inr []"
  by code_simp

text \<open>
  Claim C9 says that every search and every filter selects from the catalog last
  loaded. The code selects from \<open>inventory\<close>, which \<open>renderProducts\<close> overwrites with each
  list it draws, so a second selection sees only the result of the first. With the
  built-in catalog loaded, the filter \<open>genteng\<close> after the filter \<open>semen\<close> shows nothing,
  though the catalog has \<open>Genteng Beton\<close>; and the search \<open>pintu\<close> after the search
  \<open>semen\<close> shows nothing, though the catalog has \<open>Pintu Kayu\<close>.
\<close>

theorem C9_second_selection_narrows:
  "inventory offline_shop = getFallbackInventory
   \<and> filter (\<lambda>product. category product = Some ''genteng'') getFallbackInventory
        = [getFallbackInventory ! 8]
   \<and> inventory (filterByCategory True (filterByCategory True offline_shop ''semen'') ''genteng'') = []
   \<and> filter_try (matches ''pintu'') getFallbackInventory = Inr [getFallbackInventory ! 9]
   \<and> searchProducts True offline_shop ''semen''
        = Inr (offline_shop\<lparr>inventory := take 7 getFallbackInventory\<rparr>)
   \<and> searchProducts True (offline_shop\<lparr>inventory := take 7 getFallbackInventory\<rparr>) ''pintu''
        = Inr (offline_shop\<lparr>inventory := []\<rparr>)"
proof -
  have "filter (\<lambda>product. category product = Some ''genteng'') getFallbackInventory
        = [getFallbackInventory ! 8]"
    by (simp add: getFallbackInventory_def)
  moreover have "inventory (filterByCategory True (filterByCategory True offline_shop ''semen'') ''genteng'') = []"
    by (simp add: filterByCategory_def renderProducts_def inventory_offline getFallbackInventory_def)
  moreover have "searchProducts True offline_shop ''semen''
        = Inr (offline_shop\<lparr>inventory := take 7 getFallbackInventory\<rparr>)"
    by (simp add: searchProducts_def renderProducts_def inventory_offline fallback_semen)
  moreover have "searchProducts True (offline_shop\<lparr>inventory := take 7 getFallbackInventory\<rparr>) ''pintu''
        = Inr (offline_shop\<lparr>inventory := []\<rparr>)"
    by (simp add: searchProducts_def renderProducts_def semen_pintu)
  ultimately show ?thesis by (simp add: inventory_offline fallback_pintu)
qed

end
